theory Spec2Isabelle
  imports Main "HOL-Library.AList" "HOL-Library.Sublist"
begin

section \<open>Values and exceptions\<close>

text \<open>
  The configuration of the add-on is JSON. Its values are modelled by \<open>pyval\<close>:
  \<^verbatim>\<open>None\<close>, booleans, unbounded integers, strings, lists and dictionaries with
  string keys. A dictionary is an association list, in insertion order, since the code
  iterates over one. Floating point numbers are left out, and strings are sequences of
  ASCII characters.
\<close>

datatype pyval =
    PNone
  | PBool bool
  | PInt int
  | PStr string
  | PList "pyval list"
  | PDict "(string \<times> pyval) list"

text \<open>The exceptions that the module can raise. A raise is the value \<open>Inl e\<close>.\<close>

datatype error = KeyError | ValueError | IndexError | TypeError | AttributeError

text \<open>\<^verbatim>\<open>isinstance\<close> tests and truthiness, as Python defines them on these values.\<close>

definition truthy :: "pyval \<Rightarrow> bool" where
  "truthy v = (case v of
       PNone \<Rightarrow> False
     | PBool b \<Rightarrow> b
     | PInt i \<Rightarrow> i \<noteq> 0
     | PStr s \<Rightarrow> s \<noteq> []
     | PList xs \<Rightarrow> xs \<noteq> []
     | PDict kvs \<Rightarrow> kvs \<noteq> [])"

text \<open>\<^verbatim>\<open>xs[i]\<close> for a constant index \<open>i \<ge> 0\<close>\<close>

definition list_get :: "'a list \<Rightarrow> nat \<Rightarrow> error + 'a" where
  "list_get xs i = (if i < length xs then Inr (xs ! i) else Inl IndexError)"

text \<open>\<^verbatim>\<open>xs[i]\<close> for an integer computed at run time: a negative index counts from the end.\<close>

definition py_index :: "'a list \<Rightarrow> int \<Rightarrow> error + 'a" where
  "py_index xs i =
     (let n = int (length xs); j = (if i < 0 then i + n else i)
      in if 0 \<le> j \<and> j < n then Inr (xs ! nat j) else Inl IndexError)"

section \<open>Strings: \<^verbatim>\<open>int(s)\<close>, \<^verbatim>\<open>s.split(".")\<close> and the text of an integer\<close>

definition is_space :: "char \<Rightarrow> bool" where
  "is_space ch = (ch \<in> set [CHR '' '', CHR 0x09, CHR 0x0A, CHR 0x0B, CHR 0x0C, CHR 0x0D,
                            CHR 0x1C, CHR 0x1D, CHR 0x1E, CHR 0x1F])"

definition is_digit :: "char \<Rightarrow> bool" where
  "is_digit ch = (ch \<in> set ''0123456789'')"

definition digit_val :: "char \<Rightarrow> int" where
  "digit_val ch = int (of_char ch) - 48"

definition strip :: "string \<Rightarrow> string" where
  "strip s = rev (dropWhile is_space (rev (dropWhile is_space s)))"

text \<open>
  The digits of an integer literal: decimal digits, where a single underscore may stand
  between two digits.
\<close>

fun well_grouped :: "string \<Rightarrow> bool" where
  "well_grouped [] = False"
| "well_grouped [c] = is_digit c"
| "well_grouped (c # d # cs) =
     (is_digit c \<and> (if d = CHR ''_'' then well_grouped cs else well_grouped (d # cs)))"

definition decimal :: "string \<Rightarrow> int" where
  "decimal s = foldl (\<lambda>a ch. 10 * a + digit_val ch) 0 (filter is_digit s)"

text \<open>
  \<^verbatim>\<open>int(s)\<close> on a string: surrounding whitespace is dropped, one sign is allowed, and
  anything else than a well-formed sequence of digits raises ValueError. The limit that
  the interpreter can put on the number of digits is not modelled.
\<close>

definition py_int :: "string \<Rightarrow> error + int" where
  "py_int s =
     (let t = strip s;
          neg = (case t of [] \<Rightarrow> False | ch # r \<Rightarrow> ch = CHR ''-'');
          body = (case t of [] \<Rightarrow> [] | ch # r \<Rightarrow> if ch = CHR ''-'' \<or> ch = CHR ''+'' then r else t)
      in if well_grouped body then Inr (if neg then - decimal body else decimal body)
         else Inl ValueError)"

text \<open>\<^verbatim>\<open>s.split(sep)\<close> for a separator of one character; the result is never empty.\<close>

fun str_split :: "char \<Rightarrow> string \<Rightarrow> string list" where
  "str_split sep [] = [[]]"
| "str_split sep (ch # cs) =
     (if ch = sep then [] # str_split sep cs
      else (case str_split sep cs of [] \<Rightarrow> [[ch]] | w # ws \<Rightarrow> (ch # w) # ws))"

text \<open>\<^verbatim>\<open>[int(i) for i in ws]\<close>: the first component that is no integer raises.\<close>

fun ints_of :: "string list \<Rightarrow> error + int list" where
  "ints_of [] = Inr []"
| "ints_of (w # ws) =
     (case py_int w of
        Inl e \<Rightarrow> Inl e
      | Inr i \<Rightarrow> (case ints_of ws of Inl e \<Rightarrow> Inl e | Inr js \<Rightarrow> Inr (i # js)))"

definition digit_char :: "nat \<Rightarrow> char" where
  "digit_char d = ''0123456789'' ! d"

fun show_nat :: "nat \<Rightarrow> string" where
  "show_nat n = (if n < 10 then [digit_char n] else show_nat (n div 10) @ [digit_char (n mod 10)])"

declare show_nat.simps [simp del]

definition show_int :: "int \<Rightarrow> string" where
  "show_int i = (if i < 0 then CHR ''-'' # show_nat (nat (- i)) else show_nat (nat i))"

section \<open>The configuration store\<close>

text \<open>
  Modelled from the spec: the class ConfigManager (imported from the package
  ankiaddonconfig, which is not among the sources). The spec describes it as a flat
  key-value configuration store, so the store is an association list from key strings
  to values, in insertion order: \<^verbatim>\<open>conf[k]\<close> raises KeyError on a missing key,
  \<^verbatim>\<open>conf.get(k, d)\<close> returns the default instead, \<^verbatim>\<open>conf[k] = v\<close> replaces or
  appends, \<^verbatim>\<open>k in conf\<close> tests presence, \<^verbatim>\<open>del conf[k]\<close> removes the key, and
  \<^verbatim>\<open>conf.save()\<close> writes the store out.
\<close>

type_synonym config = "(string \<times> pyval) list"

definition conf_getitem :: "config \<Rightarrow> string \<Rightarrow> error + pyval" where
  "conf_getitem c k = (case map_of c k of None \<Rightarrow> Inl KeyError | Some v \<Rightarrow> Inr v)"

definition conf_get :: "config \<Rightarrow> string \<Rightarrow> pyval \<Rightarrow> pyval" where
  "conf_get c k d = (case map_of c k of None \<Rightarrow> d | Some v \<Rightarrow> v)"

definition conf_setitem :: "config \<Rightarrow> string \<Rightarrow> pyval \<Rightarrow> config" where
  "conf_setitem c k v = AList.update k v c"

definition conf_contains :: "config \<Rightarrow> string \<Rightarrow> bool" where
  "conf_contains c k = (map_of c k \<noteq> None)"

definition conf_delitem :: "config \<Rightarrow> string \<Rightarrow> error + config" where
  "conf_delitem c k = (if conf_contains c k then Inr (AList.delete k c) else Inl KeyError)"

section \<open>The class Version\<close>

record Version =
  major :: pyval
  minor :: pyval

text \<open>
  The state of the module: the store \<^verbatim>\<open>conf\<close>, the configuration that
  \<^verbatim>\<open>conf.save()\<close> wrote last (\<open>None\<close> before the first call), the global object
  \<^verbatim>\<open>version\<close>, and the titles of the dialogs that \<^verbatim>\<open>showText\<close> has opened.
\<close>

record state =
  conf :: config
  saved :: "config option"
  version :: Version
  shown :: "string list"

definition conf_save :: "state \<Rightarrow> state" where
  "conf_save s = s\<lparr>saved := Some (conf s)\<rparr>"

text \<open>
  \<^verbatim>\<open>Version.load\<close>. Both fields are assigned from the store; the second
  \<^verbatim>\<open>isinstance\<close> branch assigns \<^verbatim>\<open>self.major\<close>, as the source does.
\<close>

definition Version_load :: "config \<Rightarrow> error + Version" where
  "Version_load c =
     (case conf_getitem c ''version.major'' of
        Inl e \<Rightarrow> Inl e
      | Inr mj \<Rightarrow>
          (case conf_getitem c ''version.minor'' of
             Inl e \<Rightarrow> Inl e
           | Inr mn \<Rightarrow>
               (case (case mj of PStr s \<Rightarrow> (case py_int s of Inl e \<Rightarrow> Inl e | Inr i \<Rightarrow> Inr (PInt i))
                              | _ \<Rightarrow> Inr mj) of
                  Inl e \<Rightarrow> Inl e
                | Inr mj1 \<Rightarrow>
                    (case mn of
                       PStr s \<Rightarrow> (case py_int s of
                                    Inl e \<Rightarrow> Inl e
                                  | Inr i \<Rightarrow> Inr \<lparr>major = PInt i, minor = mn\<rparr>)
                     | _ \<Rightarrow> Inr \<lparr>major = mj1, minor = mn\<rparr>))))"

text \<open>
  Comparison of a stored field with an integer: \<^verbatim>\<open>==\<close> is defined on all values
  (a boolean is the integer 0 or 1), \<^verbatim>\<open><\<close> and \<^verbatim>\<open>>\<close> raise TypeError unless the
  field is a number.
\<close>

definition py_eq_int :: "pyval \<Rightarrow> int \<Rightarrow> bool" where
  "py_eq_int v i = (case v of PInt j \<Rightarrow> j = i | PBool b \<Rightarrow> (if b then 1 else 0) = i | _ \<Rightarrow> False)"

definition py_gt_int :: "pyval \<Rightarrow> int \<Rightarrow> error + bool" where
  "py_gt_int v i = (case v of PInt j \<Rightarrow> Inr (j > i) | PBool b \<Rightarrow> Inr ((if b then 1 else 0) > i)
                    | _ \<Rightarrow> Inl TypeError)"

definition py_lt_int :: "pyval \<Rightarrow> int \<Rightarrow> error + bool" where
  "py_lt_int v i = (case v of PInt j \<Rightarrow> Inr (j < i) | PBool b \<Rightarrow> Inr ((if b then 1 else 0) < i)
                    | _ \<Rightarrow> Inl TypeError)"

definition parse_version :: "string \<Rightarrow> error + int list" where
  "parse_version other = ints_of (str_split CHR ''.'' other)"

text \<open>
  The comparison methods. \<^verbatim>\<open>and\<close> and \<^verbatim>\<open>or\<close> evaluate their second operand only
  when the first does not decide, so \<^verbatim>\<open>ver[1]\<close> is read only then.
\<close>

definition Version_eq :: "Version \<Rightarrow> string \<Rightarrow> error + bool" where
  "Version_eq v other =
     (case parse_version other of
        Inl e \<Rightarrow> Inl e
      | Inr ver \<Rightarrow>
          (case list_get ver 0 of
             Inl e \<Rightarrow> Inl e
           | Inr a \<Rightarrow>
               if py_eq_int (major v) a
               then (case list_get ver 1 of Inl e \<Rightarrow> Inl e | Inr b \<Rightarrow> Inr (py_eq_int (minor v) b))
               else Inr False))"

definition Version_gt :: "Version \<Rightarrow> string \<Rightarrow> error + bool" where
  "Version_gt v other =
     (case parse_version other of
        Inl e \<Rightarrow> Inl e
      | Inr ver \<Rightarrow>
          (case list_get ver 0 of
             Inl e \<Rightarrow> Inl e
           | Inr a \<Rightarrow>
               (case py_gt_int (major v) a of
                  Inl e \<Rightarrow> Inl e
                | Inr g \<Rightarrow>
                    if g then Inr True
                    else if py_eq_int (major v) a
                    then (case list_get ver 1 of Inl e \<Rightarrow> Inl e | Inr b \<Rightarrow> py_gt_int (minor v) b)
                    else Inr False)))"

definition Version_lt :: "Version \<Rightarrow> string \<Rightarrow> error + bool" where
  "Version_lt v other =
     (case parse_version other of
        Inl e \<Rightarrow> Inl e
      | Inr ver \<Rightarrow>
          (case list_get ver 0 of
             Inl e \<Rightarrow> Inl e
           | Inr a \<Rightarrow>
               (case py_lt_int (major v) a of
                  Inl e \<Rightarrow> Inl e
                | Inr l \<Rightarrow>
                    if l then Inr True
                    else if py_eq_int (major v) a
                    then (case list_get ver 1 of Inl e \<Rightarrow> Inl e | Inr b \<Rightarrow> py_lt_int (minor v) b)
                    else Inr False)))"

definition Version_ge :: "Version \<Rightarrow> string \<Rightarrow> error + bool" where
  "Version_ge v other =
     (case Version_eq v other of
        Inl e \<Rightarrow> Inl e
      | Inr e \<Rightarrow> if e then Inr True else Version_gt v other)"

definition Version_le :: "Version \<Rightarrow> string \<Rightarrow> error + bool" where
  "Version_le v other =
     (case Version_eq v other of
        Inl e \<Rightarrow> Inl e
      | Inr e \<Rightarrow> if e then Inr True else Version_lt v other)"

section \<open>The module, statement by statement\<close>

text \<open>\<^verbatim>\<open>version = Version()\<close>: the constructor loads the object from the store.\<close>

definition Version_init :: "config \<Rightarrow> error + state" where
  "Version_init c =
     (case Version_load c of
        Inl e \<Rightarrow> Inl e
      | Inr v \<Rightarrow> Inr \<lparr>conf = c, saved = None, version = v, shown = []\<rparr>)"

definition distinguish_initial_install :: "state \<Rightarrow> error + state" where
  "distinguish_initial_install s =
     (case Version_eq (version s) ''-1.-1'' of
        Inl e \<Rightarrow> Inl e
      | Inr e \<Rightarrow>
          if \<not> e then Inr s
          else if truthy (conf_get (conf s) ''undo'' PNone) then
            (let s1 = s\<lparr>conf := conf_setitem (conf s) ''version.major'' (PInt 0)\<rparr>;
                 s2 = s1\<lparr>conf := conf_setitem (conf s1) ''version.minor'' (PInt 0)\<rparr>;
                 s3 = conf_save s2
             in case Version_load (conf s3) of
                  Inl e \<Rightarrow> Inl e
                | Inr v \<Rightarrow> Inr (s3\<lparr>version := v\<rparr>))
          else Inr s)"

definition change_resize_image_preserve_ratio :: "state \<Rightarrow> error + state" where
  "change_resize_image_preserve_ratio s =
     (case conf_getitem (conf s) ''resize_image_preserve_ratio'' of
        Inl e \<Rightarrow> Inl e
      | Inr resize_conf \<Rightarrow>
          (case resize_conf of
             PBool b \<Rightarrow>
               Inr (conf_save (s\<lparr>conf := conf_setitem (conf s) ''resize_image_preserve_ratio''
                                             (PInt (if b then 1 else 0))\<rparr>))
           | _ \<Rightarrow> Inr s))"

text \<open>
  \<^verbatim>\<open>for key in x\<close>: the keys of a dictionary in insertion order, the elements of a
  list, the characters of a string; anything else is not iterable.
\<close>

definition py_iter :: "pyval \<Rightarrow> error + pyval list" where
  "py_iter x = (case x of
       PDict kvs \<Rightarrow> Inr (map (\<lambda>kv. PStr (fst kv)) kvs)
     | PList xs \<Rightarrow> Inr xs
     | PStr s \<Rightarrow> Inr (map (\<lambda>ch. PStr [ch]) s)
     | _ \<Rightarrow> Inl TypeError)"

text \<open>
  \<^verbatim>\<open>x[key]\<close>, together with the text that the f-string \<^verbatim>\<open>f"{key}"\<close> renders for the
  key. A dictionary of the configuration has string keys only, lists and strings take
  an integer (or a boolean, which is one), and a list or dictionary is no key at all.
  The text is needed only where the subscription has succeeded.
\<close>

definition entry_of :: "pyval \<Rightarrow> pyval \<Rightarrow> error + string \<times> pyval" where
  "entry_of x key = (case x of
       PDict kvs \<Rightarrow>
         (case key of
            PStr k \<Rightarrow> (case map_of kvs k of None \<Rightarrow> Inl KeyError | Some v \<Rightarrow> Inr (k, v))
          | PList _ \<Rightarrow> Inl TypeError
          | PDict _ \<Rightarrow> Inl TypeError
          | _ \<Rightarrow> Inl KeyError)
     | PList xs \<Rightarrow>
         (case key of
            PInt i \<Rightarrow> (case py_index xs i of Inl e \<Rightarrow> Inl e | Inr v \<Rightarrow> Inr (show_int i, v))
          | PBool b \<Rightarrow> (case py_index xs (if b then 1 else 0) of
                          Inl e \<Rightarrow> Inl e
                        | Inr v \<Rightarrow> Inr (if b then ''True'' else ''False'', v))
          | _ \<Rightarrow> Inl TypeError)
     | PStr s \<Rightarrow>
         (case key of
            PInt i \<Rightarrow> (case py_index s i of Inl e \<Rightarrow> Inl e | Inr ch \<Rightarrow> Inr (show_int i, PStr [ch]))
          | PBool b \<Rightarrow> (case py_index s (if b then 1 else 0) of
                          Inl e \<Rightarrow> Inl e
                        | Inr ch \<Rightarrow> Inr (if b then ''True'' else ''False'', PStr [ch]))
          | _ \<Rightarrow> Inl TypeError)
     | _ \<Rightarrow> Inl TypeError)"

text \<open>The pair \<^verbatim>\<open>(enabled, arg)\<close> that the loop body takes from \<^verbatim>\<open>opts\<close>.\<close>

definition enabled_arg :: "pyval \<Rightarrow> error + pyval \<times> pyval" where
  "enabled_arg opts = (case opts of
       PList l \<Rightarrow>
         (case list_get l 0 of
            Inl e \<Rightarrow> Inl e
          | Inr enabled \<Rightarrow> (case list_get l 1 of Inl e \<Rightarrow> Inl e | Inr arg \<Rightarrow> Inr (enabled, arg)))
     | _ \<Rightarrow> Inr (opts, PNone))"

text \<open>
  The dictionary stored as the argument of a formatting. The test
  \<^verbatim>\<open>key in ["fontcolor", "highlight"]\<close> compares with \<^verbatim>\<open>==\<close>, which holds for a
  string key only.
\<close>

definition arg_record :: "pyval \<Rightarrow> pyval \<Rightarrow> pyval" where
  "arg_record key arg =
     PDict [(''type'', PStr (if key \<in> set [PStr ''fontcolor'', PStr ''highlight'']
                             then ''color'' else ''text'')),
            (''value'', arg)]"

text \<open>
  The keys \<^verbatim>\<open>f"special_formatting.{key}.enabled"\<close> and
  \<^verbatim>\<open>f"special_formatting.{key}.arg"\<close>, for the text \<open>k\<close> of the key.
\<close>

definition enabled_key :: "string \<Rightarrow> string" where
  "enabled_key k = ''special_formatting.'' @ k @ ''.enabled''"

definition arg_key :: "string \<Rightarrow> string" where
  "arg_key k = ''special_formatting.'' @ k @ ''.arg''"

text \<open>
  One pass of the loop body of \<^verbatim>\<open>change_special_formatting\<close>. The body reads
  \<^verbatim>\<open>conf["z_special_formatting"]\<close> again on every pass.
\<close>

definition format_step :: "config \<Rightarrow> pyval \<Rightarrow> error + config" where
  "format_step c key =
     (case conf_getitem c ''z_special_formatting'' of
        Inl e \<Rightarrow> Inl e
      | Inr x \<Rightarrow>
          (case entry_of x key of
             Inl e \<Rightarrow> Inl e
           | Inr (k, opts) \<Rightarrow>
               (case enabled_arg opts of
                  Inl e \<Rightarrow> Inl e
                | Inr (enabled, arg) \<Rightarrow>
                    (let c1 = conf_setitem c (enabled_key k) enabled
                     in if arg \<noteq> PNone
                        then Inr (conf_setitem c1 (arg_key k) (arg_record key arg))
                        else Inr c1))))"

fun format_loop :: "config \<Rightarrow> pyval list \<Rightarrow> error + config" where
  "format_loop c [] = Inr c"
| "format_loop c (key # keys) =
     (case format_step c key of Inl e \<Rightarrow> Inl e | Inr c1 \<Rightarrow> format_loop c1 keys)"

definition change_special_formatting :: "state \<Rightarrow> error + state" where
  "change_special_formatting s =
     (if \<not> conf_contains (conf s) ''z_special_formatting'' then Inr s
      else
        (case conf_getitem (conf s) ''z_special_formatting'' of
           Inl e \<Rightarrow> Inl e
         | Inr x \<Rightarrow>
             (case py_iter x of
                Inl e \<Rightarrow> Inl e
              | Inr keys \<Rightarrow>
                  (case format_loop (conf s) keys of
                     Inl e \<Rightarrow> Inl e
                   | Inr c1 \<Rightarrow>
                       (case conf_delitem c1 ''z_special_formatting'' of
                          Inl e \<Rightarrow> Inl e
                        | Inr c2 \<Rightarrow> Inr (conf_save (s\<lparr>conf := c2\<rparr>)))))))"

definition remove_undo :: "state \<Rightarrow> error + state" where
  "remove_undo s =
     (if \<not> conf_contains (conf s) ''undo'' then Inr s
      else (case conf_delitem (conf s) ''undo'' of
              Inl e \<Rightarrow> Inl e
            | Inr c1 \<Rightarrow> Inr (conf_save (s\<lparr>conf := c1\<rparr>))))"

text \<open>
  \<^verbatim>\<open>initial_tutorial\<close> opens one dialog with a fixed HTML text; the model records
  its title.
\<close>

definition initial_tutorial :: "state \<Rightarrow> state" where
  "initial_tutorial s = s\<lparr>shown := shown s @ [''Edit Field During Review Cloze Enhanced'']\<rparr>"

definition tutorial_guard :: "state \<Rightarrow> error + state" where
  "tutorial_guard s =
     (case Version_eq (version s) ''-1.-1'' of
        Inl e \<Rightarrow> Inl e
      | Inr e \<Rightarrow> Inr (if e then initial_tutorial s else s))"

text \<open>
  The current version of the add-on. The environment variable is \<open>None\<close> when unset;
  \<open>meta\<close> is the dictionary that the host's add-on manager returns for this add-on.
\<close>

definition version_string :: "string option \<Rightarrow> (string \<times> pyval) list \<Rightarrow> pyval" where
  "version_string env meta =
     (case env of
        Some e \<Rightarrow> if e \<noteq> [] then PStr e
                  else (case map_of meta ''human_version'' of None \<Rightarrow> PStr ''6.23'' | Some v \<Rightarrow> v)
      | None \<Rightarrow> (case map_of meta ''human_version'' of None \<Rightarrow> PStr ''6.23'' | Some v \<Rightarrow> v))"

text \<open>\<^verbatim>\<open>int(version_string.split(".")[i])\<close>; only a string has the method \<^verbatim>\<open>split\<close>.\<close>

definition version_component :: "pyval \<Rightarrow> nat \<Rightarrow> error + int" where
  "version_component vs i =
     (case vs of
        PStr t \<Rightarrow> (case list_get (str_split CHR ''.'' t) i of Inl e \<Rightarrow> Inl e | Inr w \<Rightarrow> py_int w)
      | _ \<Rightarrow> Inl AttributeError)"

definition save_current_version :: "string option \<Rightarrow> (string \<times> pyval) list \<Rightarrow> state \<Rightarrow> error + state" where
  "save_current_version env meta s =
     (let vs = version_string env meta
      in case version_component vs 0 of
           Inl e \<Rightarrow> Inl e
         | Inr a \<Rightarrow>
             (let s1 = s\<lparr>conf := conf_setitem (conf s) ''version.major'' (PInt a)\<rparr>
              in case version_component vs 1 of
                   Inl e \<Rightarrow> Inl e
                 | Inr b \<Rightarrow>
                     Inr (conf_save (s1\<lparr>conf := conf_setitem (conf s1) ''version.minor'' (PInt b)\<rparr>))))"

text \<open>
  The three migrations that follow \<^verbatim>\<open>distinguish_initial_install\<close>, in the order of
  the module, then the module up to the tutorial, and the whole module.
\<close>

definition migrations :: "state \<Rightarrow> error + state" where
  "migrations s =
     (case change_resize_image_preserve_ratio s of
        Inl e \<Rightarrow> Inl e
      | Inr s1 \<Rightarrow>
          (case change_special_formatting s1 of
             Inl e \<Rightarrow> Inl e
           | Inr s2 \<Rightarrow> remove_undo s2))"

definition upto_tutorial :: "config \<Rightarrow> error + state" where
  "upto_tutorial c =
     (case Version_init c of
        Inl e \<Rightarrow> Inl e
      | Inr s0 \<Rightarrow>
          (case distinguish_initial_install s0 of
             Inl e \<Rightarrow> Inl e
           | Inr s1 \<Rightarrow>
               (case migrations s1 of
                  Inl e \<Rightarrow> Inl e
                | Inr s2 \<Rightarrow> tutorial_guard s2)))"

definition firstrun :: "string option \<Rightarrow> (string \<times> pyval) list \<Rightarrow> config \<Rightarrow> error + state" where
  "firstrun env meta c =
     (case upto_tutorial c of
        Inl e \<Rightarrow> Inl e
      | Inr s \<Rightarrow> save_current_version env meta s)"

section \<open>Basic facts about the store and the version literal\<close>

lemma map_of_conf_setitem:
  "map_of (conf_setitem c k v) j = (if j = k then Some v else map_of c j)"
  by (simp add: conf_setitem_def update_conv)

lemma map_of_delete:
  "map_of (AList.delete k c) j = (if j = k then None else map_of c j)"
  by (simp add: delete_conv)

lemma parse_initial: "parse_version ''-1.-1'' = Inr [- 1, - 1]"
  by code_simp

lemma Version_eq_initial:
  "Version_eq v ''-1.-1'' = Inr (py_eq_int (major v) (- 1) \<and> py_eq_int (minor v) (- 1))"
  by (simp add: Version_eq_def parse_initial list_get_def)

lemma Version_load_ints:
  "map_of c ''version.major'' = Some (PInt a) \<Longrightarrow> map_of c ''version.minor'' = Some (PInt b)
   \<Longrightarrow> Version_load c = Inr \<lparr>major = PInt a, minor = PInt b\<rparr>"
  by (simp add: Version_load_def conf_getitem_def)

lemma py_eq_int_PInt: "py_eq_int (PInt a) i = (a = i)"
  by (simp add: py_eq_int_def)

lemma py_gt_int_PInt: "py_gt_int (PInt a) i = Inr (a > i)"
  by (simp add: py_gt_int_def)

lemma py_lt_int_PInt: "py_lt_int (PInt a) i = Inr (a < i)"
  by (simp add: py_lt_int_def)

section \<open>Booleans to integers\<close>

text \<open>
  Claim C5. When the store holds a value under \<^verbatim>\<open>resize_image_preserve_ratio\<close>,
  \<^verbatim>\<open>change_resize_image_preserve_ratio\<close> turns the boolean True into the integer 1
  and the boolean False into the integer 0 and saves the store; a value that is no
  boolean makes it return with the state as it was. The last conjunct says that the
  assignment leaves the assigned value under the key.
\<close>

theorem change_resize_image_preserve_ratio_converts:
  assumes "map_of (conf s) ''resize_image_preserve_ratio'' = Some v"
  shows "(v = PBool True \<longrightarrow>
            change_resize_image_preserve_ratio s =
              Inr (s\<lparr>conf := conf_setitem (conf s) ''resize_image_preserve_ratio'' (PInt 1),
                     saved := Some (conf_setitem (conf s) ''resize_image_preserve_ratio'' (PInt 1))\<rparr>))
       \<and> (v = PBool False \<longrightarrow>
            change_resize_image_preserve_ratio s =
              Inr (s\<lparr>conf := conf_setitem (conf s) ''resize_image_preserve_ratio'' (PInt 0),
                     saved := Some (conf_setitem (conf s) ''resize_image_preserve_ratio'' (PInt 0))\<rparr>))
       \<and> ((\<forall>b. v \<noteq> PBool b) \<longrightarrow> change_resize_image_preserve_ratio s = Inr s)
       \<and> (\<forall>w. map_of (conf_setitem (conf s) ''resize_image_preserve_ratio'' w)
                 ''resize_image_preserve_ratio'' = Some w)"
  using assms
  by (cases v)
     (auto simp add: change_resize_image_preserve_ratio_def conf_getitem_def conf_save_def
        map_of_conf_setitem)

theorem change_resize_image_preserve_ratio_converts_witness:
  "map_of (conf \<lparr>conf = [(''resize_image_preserve_ratio'', PBool True)], saved = None,
                  version = \<lparr>major = PInt 6, minor = PInt 23\<rparr>, shown = []\<rparr>)
     ''resize_image_preserve_ratio'' = Some (PBool True)
   \<and> change_resize_image_preserve_ratio
       \<lparr>conf = [(''resize_image_preserve_ratio'', PBool True)], saved = None,
        version = \<lparr>major = PInt 6, minor = PInt 23\<rparr>, shown = []\<rparr>
     = Inr \<lparr>conf = [(''resize_image_preserve_ratio'', PInt 1)],
            saved = Some [(''resize_image_preserve_ratio'', PInt 1)],
            version = \<lparr>major = PInt 6, minor = PInt 23\<rparr>, shown = []\<rparr>"
  using change_resize_image_preserve_ratio_converts
    [of "\<lparr>conf = [(''resize_image_preserve_ratio'', PBool True)], saved = None,
          version = \<lparr>major = PInt 6, minor = PInt 23\<rparr>, shown = []\<rparr>" "PBool True"]
  by (simp add: conf_setitem_def)

section \<open>Loading the version\<close>

text \<open>
  Claim C8, evaluated on the code. The store holds the version of the v6.x format,
  major \<^verbatim>\<open>"6"\<close> and minor \<^verbatim>\<open>"23"\<close>. After \<^verbatim>\<open>Version.load\<close> the field major is 23,
  the integer of the stored minor, and the field minor is still the string: the second
  conversion assigns the wrong field.
\<close>

theorem Version_load_string_version:
  "Version_load [(''version.major'', PStr ''6''), (''version.minor'', PStr ''23'')]
     = Inr \<lparr>major = PInt 23, minor = PStr ''23''\<rparr>"
  by code_simp

section \<open>Telling an initial install from an old configuration\<close>

text \<open>
  Claim C9. \<^verbatim>\<open>distinguish_initial_install\<close> never raises. It sets the stored version
  to 0.0, saves and reloads exactly when the version compares equal to \<^verbatim>\<open>"-1.-1"\<close>
  and \<^verbatim>\<open>conf.get("undo", None)\<close> is truthy; otherwise the state is returned as it
  was. In particular a falsy value under \<^verbatim>\<open>undo\<close> has the effect of a missing key:
  none.
\<close>

theorem distinguish_initial_install_rewrites_iff:
  "distinguish_initial_install s =
     Inr (if Version_eq (version s) ''-1.-1'' = Inr True
             \<and> truthy (conf_get (conf s) ''undo'' PNone)
          then s\<lparr>conf := conf_setitem (conf_setitem (conf s) ''version.major'' (PInt 0))
                            ''version.minor'' (PInt 0),
                  saved := Some (conf_setitem (conf_setitem (conf s) ''version.major'' (PInt 0))
                                   ''version.minor'' (PInt 0)),
                  version := \<lparr>major = PInt 0, minor = PInt 0\<rparr>\<rparr>
          else s)
   \<and> (\<forall>u. map_of (conf s) ''undo'' = Some u \<and> \<not> truthy u \<longrightarrow> distinguish_initial_install s = Inr s)
   \<and> (map_of (conf s) ''undo'' = None \<longrightarrow> distinguish_initial_install s = Inr s)
   \<and> map_of (conf_setitem (conf_setitem (conf s) ''version.major'' (PInt 0)) ''version.minor'' (PInt 0))
        ''version.major'' = Some (PInt 0)
   \<and> map_of (conf_setitem (conf_setitem (conf s) ''version.major'' (PInt 0)) ''version.minor'' (PInt 0))
        ''version.minor'' = Some (PInt 0)"
proof -
  let ?c = "conf_setitem (conf_setitem (conf s) ''version.major'' (PInt 0)) ''version.minor'' (PInt 0)"
  have load: "Version_load ?c = Inr \<lparr>major = PInt 0, minor = PInt 0\<rparr>"
    by (rule Version_load_ints) (simp_all add: map_of_conf_setitem)
  have main: "distinguish_initial_install s =
     Inr (if Version_eq (version s) ''-1.-1'' = Inr True
             \<and> truthy (conf_get (conf s) ''undo'' PNone)
          then s\<lparr>conf := ?c, saved := Some ?c, version := \<lparr>major = PInt 0, minor = PInt 0\<rparr>\<rparr>
          else s)"
    using load
    by (simp add: distinguish_initial_install_def Version_eq_initial conf_save_def Let_def)
  have falsy: "\<forall>u. map_of (conf s) ''undo'' = Some u \<and> \<not> truthy u \<longrightarrow> distinguish_initial_install s = Inr s"
    unfolding main by (simp add: conf_get_def)
  have absent: "map_of (conf s) ''undo'' = None \<longrightarrow> distinguish_initial_install s = Inr s"
    unfolding main by (simp add: conf_get_def truthy_def)
  have "map_of ?c ''version.major'' = Some (PInt 0)" and "map_of ?c ''version.minor'' = Some (PInt 0)"
    by (simp_all add: map_of_conf_setitem)
  with main falsy absent show ?thesis by blast
qed

theorem distinguish_initial_install_rewrites_iff_witness:
  "distinguish_initial_install
     \<lparr>conf = [(''version.major'', PInt (- 1)), (''version.minor'', PInt (- 1)), (''undo'', PBool True)],
      saved = None, version = \<lparr>major = PInt (- 1), minor = PInt (- 1)\<rparr>, shown = []\<rparr>
   = Inr \<lparr>conf = [(''version.major'', PInt 0), (''version.minor'', PInt 0), (''undo'', PBool True)],
          saved = Some [(''version.major'', PInt 0), (''version.minor'', PInt 0), (''undo'', PBool True)],
          version = \<lparr>major = PInt 0, minor = PInt 0\<rparr>, shown = []\<rparr>
   \<and> distinguish_initial_install
     \<lparr>conf = [(''version.major'', PInt (- 1)), (''version.minor'', PInt (- 1)), (''undo'', PBool False)],
      saved = None, version = \<lparr>major = PInt (- 1), minor = PInt (- 1)\<rparr>, shown = []\<rparr>
   = Inr \<lparr>conf = [(''version.major'', PInt (- 1)), (''version.minor'', PInt (- 1)), (''undo'', PBool False)],
      saved = None, version = \<lparr>major = PInt (- 1), minor = PInt (- 1)\<rparr>, shown = []\<rparr>"
  using distinguish_initial_install_rewrites_iff
    [of "\<lparr>conf = [(''version.major'', PInt (- 1)), (''version.minor'', PInt (- 1)), (''undo'', PBool True)],
          saved = None, version = \<lparr>major = PInt (- 1), minor = PInt (- 1)\<rparr>, shown = []\<rparr>"]
    distinguish_initial_install_rewrites_iff
    [of "\<lparr>conf = [(''version.major'', PInt (- 1)), (''version.minor'', PInt (- 1)), (''undo'', PBool False)],
          saved = None, version = \<lparr>major = PInt (- 1), minor = PInt (- 1)\<rparr>, shown = []\<rparr>"]
  by (simp add: Version_eq_initial py_eq_int_PInt conf_get_def truthy_def conf_setitem_def)

section \<open>The comparison methods\<close>

lemma parse_six_five: "parse_version ''6.5'' = Inr [6, 5]"
  by code_simp

text \<open>
  Claim C10. For a version whose fields are the integers \<open>a\<close> and \<open>b\<close>, and a
  string that splits into at least two integers, the five comparison methods return
  without raising and realise the lexicographic order of the pair \<open>(a, b)\<close> against
  the first two components: exactly one of \<^verbatim>\<open><\<close>, \<^verbatim>\<open>==\<close>, \<^verbatim>\<open>>\<close> holds,
  \<^verbatim>\<open><=\<close> is \<^verbatim>\<open><\<close> or \<^verbatim>\<open>==\<close>, and \<^verbatim>\<open>>=\<close> is \<^verbatim>\<open>>\<close> or \<^verbatim>\<open>==\<close>.
\<close>

theorem Version_comparisons_lexicographic:
  assumes "major v = PInt a" and "minor v = PInt b"
    and "parse_version other = Inr ver" and "2 \<le> length ver"
  shows "Version_lt v other = Inr (a < ver ! 0 \<or> (a = ver ! 0 \<and> b < ver ! 1))
       \<and> Version_eq v other = Inr (a = ver ! 0 \<and> b = ver ! 1)
       \<and> Version_gt v other = Inr (a > ver ! 0 \<or> (a = ver ! 0 \<and> b > ver ! 1))
       \<and> Version_le v other =
             Inr ((a < ver ! 0 \<or> (a = ver ! 0 \<and> b < ver ! 1)) \<or> (a = ver ! 0 \<and> b = ver ! 1))
       \<and> Version_ge v other =
             Inr ((a > ver ! 0 \<or> (a = ver ! 0 \<and> b > ver ! 1)) \<or> (a = ver ! 0 \<and> b = ver ! 1))
       \<and> (\<exists>l e g. Version_lt v other = Inr l \<and> Version_eq v other = Inr e
                  \<and> Version_gt v other = Inr g
                  \<and> ((l \<and> \<not> e \<and> \<not> g) \<or> (\<not> l \<and> e \<and> \<not> g) \<or> (\<not> l \<and> \<not> e \<and> g)))"
proof -
  have len: "0 < length ver" "1 < length ver"
    using assms(4) by auto
  have lt: "Version_lt v other = Inr (a < ver ! 0 \<or> (a = ver ! 0 \<and> b < ver ! 1))"
    using assms(1-3) len by (simp add: Version_lt_def list_get_def py_lt_int_PInt py_eq_int_PInt)
  have eq: "Version_eq v other = Inr (a = ver ! 0 \<and> b = ver ! 1)"
    using assms(1-3) len by (simp add: Version_eq_def list_get_def py_eq_int_PInt)
  have gt: "Version_gt v other = Inr (a > ver ! 0 \<or> (a = ver ! 0 \<and> b > ver ! 1))"
    using assms(1-3) len by (simp add: Version_gt_def list_get_def py_gt_int_PInt py_eq_int_PInt)
  have le: "Version_le v other =
             Inr ((a < ver ! 0 \<or> (a = ver ! 0 \<and> b < ver ! 1)) \<or> (a = ver ! 0 \<and> b = ver ! 1))"
    by (auto simp add: Version_le_def lt eq)
  have ge: "Version_ge v other =
             Inr ((a > ver ! 0 \<or> (a = ver ! 0 \<and> b > ver ! 1)) \<or> (a = ver ! 0 \<and> b = ver ! 1))"
    by (auto simp add: Version_ge_def gt eq)
  have tri: "\<exists>l e g. Version_lt v other = Inr l \<and> Version_eq v other = Inr e
                  \<and> Version_gt v other = Inr g
                  \<and> ((l \<and> \<not> e \<and> \<not> g) \<or> (\<not> l \<and> e \<and> \<not> g) \<or> (\<not> l \<and> \<not> e \<and> g))"
    unfolding lt eq gt by (simp, linarith)
  from lt eq gt le ge tri show ?thesis by blast
qed

theorem Version_comparisons_lexicographic_witness:
  "major \<lparr>major = PInt 6, minor = PInt 23\<rparr> = PInt 6
   \<and> minor \<lparr>major = PInt 6, minor = PInt 23\<rparr> = PInt 23
   \<and> parse_version ''6.5'' = Inr [6, 5] \<and> 2 \<le> length [6::int, 5]
   \<and> Version_lt \<lparr>major = PInt 6, minor = PInt 23\<rparr> ''6.5'' = Inr False
   \<and> Version_eq \<lparr>major = PInt 6, minor = PInt 23\<rparr> ''6.5'' = Inr False
   \<and> Version_gt \<lparr>major = PInt 6, minor = PInt 23\<rparr> ''6.5'' = Inr True
   \<and> Version_le \<lparr>major = PInt 6, minor = PInt 23\<rparr> ''6.5'' = Inr False
   \<and> Version_ge \<lparr>major = PInt 6, minor = PInt 23\<rparr> ''6.5'' = Inr True"
  using Version_comparisons_lexicographic
    [of "\<lparr>major = PInt 6, minor = PInt 23\<rparr>" 6 23 "''6.5''" "[6, 5]"]
  by (simp add: parse_six_five)

section \<open>Flattening the special formatting\<close>

lemma enabled_key_inj: "enabled_key k = enabled_key j \<longleftrightarrow> k = j"
  by (simp add: enabled_key_def)

lemma arg_key_inj: "arg_key k = arg_key j \<longleftrightarrow> k = j"
  by (simp add: arg_key_def)

lemma enabled_key_neq_arg_key: "enabled_key k \<noteq> arg_key j"
proof
  assume "enabled_key k = arg_key j"
  then have "last (enabled_key k) = last (arg_key j)" by simp
  then show False by (simp add: enabled_key_def arg_key_def)
qed

lemma arg_key_neq_enabled_key: "arg_key j \<noteq> enabled_key k"
  using enabled_key_neq_arg_key [of k j] by simp

lemma keys_neq_z: "enabled_key k \<noteq> ''z_special_formatting''" "arg_key k \<noteq> ''z_special_formatting''"
  by (simp_all add: enabled_key_def arg_key_def)

lemma z_neq_keys: "''z_special_formatting'' \<noteq> enabled_key k" "''z_special_formatting'' \<noteq> arg_key k"
  by (simp_all add: enabled_key_def arg_key_def)

lemma prefix_keys: "prefix ''special_formatting.'' (enabled_key k)" "prefix ''special_formatting.'' (arg_key k)"
  unfolding enabled_key_def arg_key_def by (rule prefixI [OF refl])+


lemma format_step_frame:
  assumes "format_step c key = Inr c1" and "\<not> prefix ''special_formatting.'' j"
  shows "map_of c1 j = map_of c j"
proof -
  have "j \<noteq> enabled_key t" and "j \<noteq> arg_key t" for t
    using assms(2) prefix_keys [of t] by auto
  then show ?thesis
    using assms(1)
    by (auto simp add: format_step_def Let_def map_of_conf_setitem split: sum.splits prod.splits if_splits)
qed

lemma format_step_dict:
  assumes "map_of c ''z_special_formatting'' = Some (PDict kvs)"
    and "map_of kvs k = Some opts" and "enabled_arg opts = Inr (en, arg)"
  shows "format_step c (PStr k) =
     Inr (if arg \<noteq> PNone
          then conf_setitem (conf_setitem c (enabled_key k) en) (arg_key k) (arg_record (PStr k) arg)
          else conf_setitem c (enabled_key k) en)"
  using assms by (simp add: format_step_def conf_getitem_def entry_of_def)

lemma format_step_str_frame:
  assumes "format_step c (PStr k) = Inr c1" and "j \<noteq> enabled_key k" and "j \<noteq> arg_key k"
  shows "map_of c1 j = map_of c j"
  using assms
  by (auto simp add: format_step_def entry_of_def Let_def map_of_conf_setitem
      split: sum.splits prod.splits if_splits pyval.splits option.splits)

lemma format_loop_str_frame:
  assumes "format_loop c (map PStr ks) = Inr c1"
    and "\<forall>k\<in>set ks. j \<noteq> enabled_key k \<and> j \<noteq> arg_key k"
  shows "map_of c1 j = map_of c j"
  using assms
proof (induction ks arbitrary: c)
  case Nil
  then show ?case by simp
next
  case (Cons k ks)
  from Cons.prems(1) obtain c2 where st: "format_step c (PStr k) = Inr c2"
    and lp: "format_loop c2 (map PStr ks) = Inr c1"
    by (auto split: sum.splits)
  have "map_of c1 j = map_of c2 j" using Cons.IH [OF lp] Cons.prems(2) by simp
  also have "\<dots> = map_of c j" using format_step_str_frame [OF st] Cons.prems(2) by simp
  finally show ?case .
qed

lemma format_loop_dict:
  assumes "distinct ks"
    and "\<forall>k\<in>set ks. \<exists>opts en arg. map_of kvs k = Some opts \<and> enabled_arg opts = Inr (en, arg)"
    and "map_of c ''z_special_formatting'' = Some (PDict kvs)"
  shows "\<exists>c1. format_loop c (map PStr ks) = Inr c1
           \<and> (\<forall>k\<in>set ks. \<forall>opts en arg. map_of kvs k = Some opts \<longrightarrow> enabled_arg opts = Inr (en, arg) \<longrightarrow>
                 map_of c1 (enabled_key k) = Some en
               \<and> map_of c1 (arg_key k) =
                   (if arg \<noteq> PNone then Some (arg_record (PStr k) arg) else map_of c (arg_key k)))"
  using assms
proof (induction ks arbitrary: c)
  case Nil
  then show ?case by simp
next
  case (Cons k ks)
  from Cons.prems(2) obtain opts en arg where
    opts: "map_of kvs k = Some opts" and ea: "enabled_arg opts = Inr (en, arg)"
    by auto
  define c2 where "c2 = (if arg \<noteq> PNone
          then conf_setitem (conf_setitem c (enabled_key k) en) (arg_key k) (arg_record (PStr k) arg)
          else conf_setitem c (enabled_key k) en)"
  have step: "format_step c (PStr k) = Inr c2"
    unfolding c2_def by (rule format_step_dict [OF Cons.prems(3) opts ea])
  have c2: "map_of c2 j =
      (if j = arg_key k \<and> arg \<noteq> PNone then Some (arg_record (PStr k) arg)
       else if j = enabled_key k then Some en
       else map_of c j)" for j
    by (simp add: c2_def map_of_conf_setitem enabled_key_neq_arg_key)
  have z2: "map_of c2 ''z_special_formatting'' = Some (PDict kvs)"
    using Cons.prems(3) keys_neq_z [of k] by (simp add: c2)
  from Cons.prems(1) have dks: "distinct ks" and knotin: "k \<notin> set ks" by simp_all
  from Cons.prems(2) have all: "\<forall>k\<in>set ks. \<exists>opts en arg. map_of kvs k = Some opts \<and> enabled_arg opts = Inr (en, arg)"
    by simp
  from Cons.IH [OF dks all z2] obtain c1 where
    lp: "format_loop c2 (map PStr ks) = Inr c1"
    and post: "\<forall>k\<in>set ks. \<forall>opts en arg. map_of kvs k = Some opts \<longrightarrow> enabled_arg opts = Inr (en, arg) \<longrightarrow>
                 map_of c1 (enabled_key k) = Some en
               \<and> map_of c1 (arg_key k) =
                   (if arg \<noteq> PNone then Some (arg_record (PStr k) arg) else map_of c2 (arg_key k))"
    by blast
  have run: "format_loop c (map PStr (k # ks)) = Inr c1"
    by (simp add: step lp)
  have other: "map_of c2 (arg_key j) = map_of c (arg_key j)" if "j \<in> set ks" for j
    using that knotin by (auto simp add: c2 arg_key_inj arg_key_neq_enabled_key)
  have head_en: "map_of c1 (enabled_key k) = Some en"
  proof -
    have "map_of c1 (enabled_key k) = map_of c2 (enabled_key k)"
      using knotin by (intro format_loop_str_frame [OF lp]) (auto simp add: enabled_key_inj enabled_key_neq_arg_key)
    then show ?thesis by (simp add: c2 enabled_key_neq_arg_key)
  qed
  have head_arg: "map_of c1 (arg_key k) =
      (if arg \<noteq> PNone then Some (arg_record (PStr k) arg) else map_of c (arg_key k))"
  proof -
    have "map_of c1 (arg_key k) = map_of c2 (arg_key k)"
      using knotin by (intro format_loop_str_frame [OF lp]) (auto simp add: arg_key_inj arg_key_neq_enabled_key)
    then show ?thesis by (simp add: c2 arg_key_neq_enabled_key)
  qed
  have post': "\<forall>j\<in>set (k # ks). \<forall>opts en arg. map_of kvs j = Some opts \<longrightarrow> enabled_arg opts = Inr (en, arg) \<longrightarrow>
                 map_of c1 (enabled_key j) = Some en
               \<and> map_of c1 (arg_key j) =
                   (if arg \<noteq> PNone then Some (arg_record (PStr j) arg) else map_of c (arg_key j))"
    using post other head_en head_arg opts ea by auto
  from run post' show ?case by blast
qed


lemma enabled_arg_cases:
  "enabled_arg opts =
     (case opts of
        PList l \<Rightarrow> if 2 \<le> length l then Inr (l ! 0, l ! 1) else Inl IndexError
      | _ \<Rightarrow> Inr (opts, PNone))"
  by (cases opts) (auto simp add: enabled_arg_def list_get_def)

lemma change_special_formatting_absent:
  "map_of (conf s) ''z_special_formatting'' = None \<Longrightarrow> change_special_formatting s = Inr s"
  by (simp add: change_special_formatting_def conf_contains_def)

lemma change_special_formatting_dict:
  assumes z: "map_of (conf s) ''z_special_formatting'' = Some (PDict kvs)"
    and d: "distinct (map fst kvs)"
    and len: "\<forall>(k, opts) \<in> set kvs. \<forall>l. opts = PList l \<longrightarrow> 2 \<le> length l"
  shows "\<exists>s'. change_special_formatting s = Inr s'
      \<and> (\<forall>(k, opts) \<in> set kvs.
            map_of (conf s') (enabled_key k) = Some (case opts of PList l \<Rightarrow> l ! 0 | _ \<Rightarrow> opts)
          \<and> map_of (conf s') (arg_key k) =
              (case opts of
                 PList l \<Rightarrow>
                   if l ! 1 \<noteq> PNone
                   then Some (PDict [(''type'', PStr (if k = ''fontcolor'' \<or> k = ''highlight''
                                                      then ''color'' else ''text'')),
                                     (''value'', l ! 1)])
                   else map_of (conf s) (arg_key k)
               | _ \<Rightarrow> map_of (conf s) (arg_key k)))
      \<and> map_of (conf s') ''z_special_formatting'' = None
      \<and> saved s' = Some (conf s') \<and> version s' = version s \<and> shown s' = shown s"
proof -
  let ?ks = "map fst kvs"
  have ea: "enabled_arg opts = Inr (case opts of PList l \<Rightarrow> (l ! 0, l ! 1) | _ \<Rightarrow> (opts, PNone))"
    if "(k, opts) \<in> set kvs" for k opts
    using len that by (cases opts) (auto simp add: enabled_arg_cases)
  have pre: "\<forall>k\<in>set ?ks. \<exists>opts en arg. map_of kvs k = Some opts \<and> enabled_arg opts = Inr (en, arg)"
  proof
    fix k assume "k \<in> set ?ks"
    then obtain opts where in_kvs: "(k, opts) \<in> set kvs" by auto
    with d have "map_of kvs k = Some opts" by simp
    moreover obtain en arg where "enabled_arg opts = Inr (en, arg)"
      using ea [OF in_kvs] by (cases "case opts of PList l \<Rightarrow> (l ! 0, l ! 1) | _ \<Rightarrow> (opts, PNone)") simp
    ultimately show "\<exists>opts en arg. map_of kvs k = Some opts \<and> enabled_arg opts = Inr (en, arg)"
      by blast
  qed
  from format_loop_dict [OF d pre z] obtain c1 where
    lp: "format_loop (conf s) (map PStr ?ks) = Inr c1"
    and post: "\<forall>k\<in>set ?ks. \<forall>opts en arg. map_of kvs k = Some opts \<longrightarrow> enabled_arg opts = Inr (en, arg) \<longrightarrow>
                 map_of c1 (enabled_key k) = Some en
               \<and> map_of c1 (arg_key k) =
                   (if arg \<noteq> PNone then Some (arg_record (PStr k) arg) else map_of (conf s) (arg_key k))"
    by blast
  have z1: "map_of c1 ''z_special_formatting'' = Some (PDict kvs)"
  proof -
    have "map_of c1 ''z_special_formatting'' = map_of (conf s) ''z_special_formatting''"
      by (intro format_loop_str_frame [OF lp]) (simp add: z_neq_keys)
    with z show ?thesis by simp
  qed
  define s' where "s' = conf_save (s\<lparr>conf := AList.delete ''z_special_formatting'' c1\<rparr>)"
  have iter: "py_iter (PDict kvs) = Inr (map PStr ?ks)"
    by (simp add: py_iter_def)
  have run: "change_special_formatting s = Inr s'"
    using z z1 lp iter
    by (simp add: change_special_formatting_def conf_contains_def conf_getitem_def conf_delitem_def s'_def)
  have conf': "map_of (conf s') j = (if j = ''z_special_formatting'' then None else map_of c1 j)" for j
    by (simp add: s'_def conf_save_def map_of_delete)
  have entries: "map_of (conf s') (enabled_key k) = Some (case opts of PList l \<Rightarrow> l ! 0 | _ \<Rightarrow> opts)
          \<and> map_of (conf s') (arg_key k) =
              (case opts of
                 PList l \<Rightarrow>
                   if l ! 1 \<noteq> PNone
                   then Some (PDict [(''type'', PStr (if k = ''fontcolor'' \<or> k = ''highlight''
                                                      then ''color'' else ''text'')),
                                     (''value'', l ! 1)])
                   else map_of (conf s) (arg_key k)
               | _ \<Rightarrow> map_of (conf s) (arg_key k))"
    if in_kvs: "(k, opts) \<in> set kvs" for k opts
  proof -
    from in_kvs have k: "k \<in> set ?ks" by force
    from in_kvs d have m: "map_of kvs k = Some opts" by simp
    show ?thesis
    proof (cases "\<exists>l. opts = PList l")
      case True
      then obtain l where l: "opts = PList l" by blast
      have "enabled_arg opts = Inr (l ! 0, l ! 1)"
        using ea [OF in_kvs] by (simp add: l)
      from post [rule_format, OF k m this] show ?thesis
        by (simp add: l conf' keys_neq_z arg_record_def)
    next
      case False
      have "enabled_arg opts = Inr (opts, PNone)"
        using ea [OF in_kvs] False by (cases opts) simp_all
      from post [rule_format, OF k m this] False show ?thesis
        by (cases opts) (simp_all add: conf' keys_neq_z)
    qed
  qed
  have rest: "map_of (conf s') ''z_special_formatting'' = None"
    "saved s' = Some (conf s')" "version s' = version s" "shown s' = shown s"
    by (simp_all add: s'_def conf_save_def map_of_delete)
  from run entries rest show ?thesis by blast
qed

lemma format_step_raises:
  assumes "map_of c ''z_special_formatting'' = Some (PDict kvs)"
    and "map_of kvs k = Some opts" and "enabled_arg opts = Inl e"
  shows "format_step c (PStr k) = Inl e"
  using assms by (simp add: format_step_def conf_getitem_def entry_of_def)

lemma format_loop_dict_raises:
  assumes "map_of c ''z_special_formatting'' = Some (PDict kvs)"
    and "\<forall>k\<in>set ks. \<exists>opts. map_of kvs k = Some opts"
    and "\<exists>k\<in>set ks. \<exists>l. map_of kvs k = Some (PList l) \<and> length l < 2"
  shows "format_loop c (map PStr ks) = Inl IndexError"
  using assms
proof (induction ks arbitrary: c)
  case Nil
  then show ?case by simp
next
  case (Cons k ks)
  from Cons.prems(2) obtain opts where opts: "map_of kvs k = Some opts" by auto
  show ?case
  proof (cases "enabled_arg opts")
    case (Inl e)
    then have "e = IndexError"
      by (cases opts) (auto simp add: enabled_arg_cases split: if_splits)
    with format_step_raises [OF Cons.prems(1) opts Inl] show ?thesis by simp
  next
    case (Inr p)
    obtain en arg where p: "p = (en, arg)" by (cases p)
    have ea: "enabled_arg opts = Inr (en, arg)" using Inr p by simp
    define c2 where "c2 = (if arg \<noteq> PNone
          then conf_setitem (conf_setitem c (enabled_key k) en) (arg_key k) (arg_record (PStr k) arg)
          else conf_setitem c (enabled_key k) en)"
    have step: "format_step c (PStr k) = Inr c2"
      unfolding c2_def by (rule format_step_dict [OF Cons.prems(1) opts ea])
    have z2: "map_of c2 ''z_special_formatting'' = Some (PDict kvs)"
      using Cons.prems(1) by (simp add: c2_def map_of_conf_setitem z_neq_keys)
    have good: "\<not> (\<exists>l. opts = PList l \<and> length l < 2)"
      using ea by (auto simp add: enabled_arg_cases)
    with Cons.prems(3) opts have bad: "\<exists>k\<in>set ks. \<exists>l. map_of kvs k = Some (PList l) \<and> length l < 2"
      by auto
    from Cons.prems(2) have all: "\<forall>k\<in>set ks. \<exists>opts. map_of kvs k = Some opts" by simp
    from Cons.IH [OF z2 all bad] step show ?thesis by simp
  qed
qed

lemma change_special_formatting_short_list:
  assumes z: "map_of (conf s) ''z_special_formatting'' = Some (PDict kvs)"
    and d: "distinct (map fst kvs)"
    and bad: "\<exists>(k, opts) \<in> set kvs. \<exists>l. opts = PList l \<and> length l < 2"
  shows "change_special_formatting s = Inl IndexError"
proof -
  have all: "\<forall>k\<in>set (map fst kvs). \<exists>opts. map_of kvs k = Some opts"
    using d by (auto intro: map_of_is_SomeI)
  from bad obtain k l where "(k, PList l) \<in> set kvs" and "length l < 2" by auto
  with d have "k \<in> set (map fst kvs)" and "map_of kvs k = Some (PList l)" and "length l < 2"
    by (force, simp, simp)
  then have "\<exists>k\<in>set (map fst kvs). \<exists>l. map_of kvs k = Some (PList l) \<and> length l < 2"
    by blast
  moreover have "py_iter (PDict kvs) = Inr (map PStr (map fst kvs))"
    by (simp add: py_iter_def)
  ultimately show ?thesis
    using format_loop_dict_raises [OF z all] z
    by (simp add: change_special_formatting_def conf_contains_def conf_getitem_def)
qed

text \<open>
  Claim C6. Without the key \<^verbatim>\<open>z_special_formatting\<close> the state is returned as it
  was. With a dictionary under the key (its keys distinct, as in any dictionary) in
  which every list has at least the two elements that the body reads, the function
  returns, and for every entry \<open>(k, opts)\<close>: \<^verbatim>\<open>special_formatting.k.enabled\<close> holds
  \<^verbatim>\<open>opts[0]\<close> for a list and \<^verbatim>\<open>opts\<close> otherwise; \<^verbatim>\<open>special_formatting.k.arg\<close>
  holds the record of type and value when \<^verbatim>\<open>opts\<close> is a list whose \<^verbatim>\<open>opts[1]\<close> is
  not None, and is what it was before otherwise; the key \<^verbatim>\<open>z_special_formatting\<close> is
  gone and the store is saved. A list with fewer than two elements makes the function
  raise IndexError.
\<close>

theorem change_special_formatting_flattens:
  "(map_of (conf s) ''z_special_formatting'' = None \<longrightarrow> change_special_formatting s = Inr s)
   \<and> (map_of (conf s) ''z_special_formatting'' = Some (PDict kvs) \<and> distinct (map fst kvs)
        \<and> (\<forall>(k, opts) \<in> set kvs. \<forall>l. opts = PList l \<longrightarrow> 2 \<le> length l)
      \<longrightarrow> (\<exists>s'. change_special_formatting s = Inr s'
             \<and> (\<forall>(k, opts) \<in> set kvs.
                   map_of (conf s') (enabled_key k) = Some (case opts of PList l \<Rightarrow> l ! 0 | _ \<Rightarrow> opts)
                 \<and> map_of (conf s') (arg_key k) =
                     (case opts of
                        PList l \<Rightarrow>
                          if l ! 1 \<noteq> PNone
                          then Some (PDict [(''type'', PStr (if k = ''fontcolor'' \<or> k = ''highlight''
                                                             then ''color'' else ''text'')),
                                            (''value'', l ! 1)])
                          else map_of (conf s) (arg_key k)
                      | _ \<Rightarrow> map_of (conf s) (arg_key k)))
             \<and> map_of (conf s') ''z_special_formatting'' = None
             \<and> saved s' = Some (conf s') \<and> version s' = version s \<and> shown s' = shown s))
   \<and> (map_of (conf s) ''z_special_formatting'' = Some (PDict kvs) \<and> distinct (map fst kvs)
        \<and> (\<exists>(k, opts) \<in> set kvs. \<exists>l. opts = PList l \<and> length l < 2)
      \<longrightarrow> change_special_formatting s = Inl IndexError)"
  using change_special_formatting_absent [of s] change_special_formatting_dict [of s kvs]
    change_special_formatting_short_list [of s kvs]
  by blast

theorem change_special_formatting_flattens_witness:
  "map_of (conf \<lparr>conf = [(''z_special_formatting'',
                          PDict [(''bold'', PBool True),
                                 (''fontcolor'', PList [PBool False, PStr ''#00f''])])],
                  saved = None, version = \<lparr>major = PInt 5, minor = PInt 0\<rparr>, shown = []\<rparr>)
      ''z_special_formatting''
     = Some (PDict [(''bold'', PBool True), (''fontcolor'', PList [PBool False, PStr ''#00f''])])
   \<and> (\<exists>s'. change_special_formatting
              \<lparr>conf = [(''z_special_formatting'',
                        PDict [(''bold'', PBool True),
                               (''fontcolor'', PList [PBool False, PStr ''#00f''])])],
               saved = None, version = \<lparr>major = PInt 5, minor = PInt 0\<rparr>, shown = []\<rparr> = Inr s'
          \<and> map_of (conf s') (enabled_key ''bold'') = Some (PBool True)
          \<and> map_of (conf s') (arg_key ''bold'') = None
          \<and> map_of (conf s') (enabled_key ''fontcolor'') = Some (PBool False)
          \<and> map_of (conf s') (arg_key ''fontcolor'')
              = Some (PDict [(''type'', PStr ''color''), (''value'', PStr ''#00f'')])
          \<and> map_of (conf s') ''z_special_formatting'' = None
          \<and> saved s' = Some (conf s'))"
  using change_special_formatting_flattens
    [of "\<lparr>conf = [(''z_special_formatting'',
                   PDict [(''bold'', PBool True),
                          (''fontcolor'', PList [PBool False, PStr ''#00f''])])],
          saved = None, version = \<lparr>major = PInt 5, minor = PInt 0\<rparr>, shown = []\<rparr>"
        "[(''bold'', PBool True), (''fontcolor'', PList [PBool False, PStr ''#00f''])]"]
  by (auto simp add: arg_key_def)

section \<open>Each migration touches its own keys only\<close>

lemma format_loop_frame:
  assumes "format_loop c keys = Inr c1" and "\<not> prefix ''special_formatting.'' j"
  shows "map_of c1 j = map_of c j"
  using assms
proof (induction keys arbitrary: c)
  case Nil
  then show ?case by simp
next
  case (Cons key keys)
  from Cons.prems(1) obtain c2 where st: "format_step c key = Inr c2"
    and lp: "format_loop c2 keys = Inr c1"
    by (auto split: sum.splits)
  have "map_of c1 j = map_of c2 j" using Cons.IH [OF lp Cons.prems(2)] .
  also have "\<dots> = map_of c j" using format_step_frame [OF st Cons.prems(2)] .
  finally show ?case .
qed

lemma frame_change_resize_image_preserve_ratio:
  assumes "change_resize_image_preserve_ratio s = Inr s'"
  shows "version s' = version s" and "shown s' = shown s"
    and "k \<noteq> ''resize_image_preserve_ratio'' \<Longrightarrow> map_of (conf s') k = map_of (conf s) k"
  using assms
  by (auto simp add: change_resize_image_preserve_ratio_def conf_getitem_def conf_save_def
      map_of_conf_setitem split: option.splits pyval.splits)

lemma frame_remove_undo:
  assumes "remove_undo s = Inr s'"
  shows "version s' = version s" and "shown s' = shown s"
    and "k \<noteq> ''undo'' \<Longrightarrow> map_of (conf s') k = map_of (conf s) k"
  using assms
  by (auto simp add: remove_undo_def conf_delitem_def conf_save_def map_of_delete split: if_splits)

lemma frame_change_special_formatting:
  assumes "change_special_formatting s = Inr s'"
  shows "version s' = version s" and "shown s' = shown s"
    and "k \<noteq> ''z_special_formatting'' \<Longrightarrow> \<not> prefix ''special_formatting.'' k
         \<Longrightarrow> map_of (conf s') k = map_of (conf s) k"
proof -
  show "version s' = version s" and "shown s' = shown s"
    using assms
    by (auto simp add: change_special_formatting_def conf_delitem_def conf_save_def
        split: sum.splits if_splits)
  assume k: "k \<noteq> ''z_special_formatting''" "\<not> prefix ''special_formatting.'' k"
  show "map_of (conf s') k = map_of (conf s) k"
  proof (cases "conf_contains (conf s) ''z_special_formatting''")
    case False
    then show ?thesis using assms by (simp add: change_special_formatting_def)
  next
    case True
    with assms obtain keys c1 where lp: "format_loop (conf s) keys = Inr c1"
      and s': "s' = conf_save (s\<lparr>conf := AList.delete ''z_special_formatting'' c1\<rparr>)"
      by (auto simp add: change_special_formatting_def conf_delitem_def split: sum.splits if_splits)
    have "map_of (conf s') k = map_of c1 k"
      using k(1) by (simp add: s' conf_save_def map_of_delete)
    also have "\<dots> = map_of (conf s) k" by (rule format_loop_frame [OF lp k(2)])
    finally show ?thesis .
  qed
qed

lemma frame_distinguish_initial_install:
  assumes "distinguish_initial_install s = Inr s'"
  shows "shown s' = shown s"
    and "k \<noteq> ''version.major'' \<Longrightarrow> k \<noteq> ''version.minor'' \<Longrightarrow> map_of (conf s') k = map_of (conf s) k"
  using assms
  by (auto simp add: distinguish_initial_install_def conf_save_def Let_def map_of_conf_setitem
      split: sum.splits if_splits)

text \<open>
  Claim C7. A migration that returns has changed no key but its own:
  \<^verbatim>\<open>change_resize_image_preserve_ratio\<close> at most \<^verbatim>\<open>resize_image_preserve_ratio\<close>,
  \<^verbatim>\<open>remove_undo\<close> at most \<^verbatim>\<open>undo\<close>, \<^verbatim>\<open>change_special_formatting\<close> at most
  \<^verbatim>\<open>z_special_formatting\<close> and the keys that begin with \<^verbatim>\<open>special_formatting.\<close>,
  and \<^verbatim>\<open>distinguish_initial_install\<close> at most \<^verbatim>\<open>version.major\<close> and
  \<^verbatim>\<open>version.minor\<close>.
\<close>

theorem migrations_confined_to_own_keys:
  "(change_resize_image_preserve_ratio s = Inr s' \<longrightarrow>
      (\<forall>k. k \<noteq> ''resize_image_preserve_ratio'' \<longrightarrow> map_of (conf s') k = map_of (conf s) k))
   \<and> (remove_undo s = Inr s' \<longrightarrow>
      (\<forall>k. k \<noteq> ''undo'' \<longrightarrow> map_of (conf s') k = map_of (conf s) k))
   \<and> (change_special_formatting s = Inr s' \<longrightarrow>
      (\<forall>k. k \<noteq> ''z_special_formatting'' \<and> \<not> prefix ''special_formatting.'' k
           \<longrightarrow> map_of (conf s') k = map_of (conf s) k))
   \<and> (distinguish_initial_install s = Inr s' \<longrightarrow>
      (\<forall>k. k \<noteq> ''version.major'' \<and> k \<noteq> ''version.minor''
           \<longrightarrow> map_of (conf s') k = map_of (conf s) k))"
  using frame_change_resize_image_preserve_ratio(3) [of s s'] frame_remove_undo(3) [of s s']
    frame_change_special_formatting(3) [of s s'] frame_distinguish_initial_install(2) [of s s']
  by blast

lemma remove_undo_example:
  "remove_undo
     \<lparr>conf = [(''undo'', PBool True), (''tag'', PStr ''x'')],
       saved = None,
       version = \<lparr>major = PInt 5, minor = PInt 0\<rparr>, shown = []\<rparr>
   = Inr \<lparr>conf = [(''tag'', PStr ''x'')],
       saved = Some [(''tag'', PStr ''x'')],
       version = \<lparr>major = PInt 5, minor = PInt 0\<rparr>, shown = []\<rparr>"
  by code_simp

lemma change_resize_image_preserve_ratio_example:
  "change_resize_image_preserve_ratio
     \<lparr>conf = [(''resize_image_preserve_ratio'', PBool False), (''tag'', PStr ''x'')],
       saved = None,
       version = \<lparr>major = PInt 5, minor = PInt 0\<rparr>, shown = []\<rparr>
   = Inr \<lparr>conf = [(''resize_image_preserve_ratio'', PInt 0), (''tag'', PStr ''x'')],
       saved = Some [(''resize_image_preserve_ratio'', PInt 0), (''tag'', PStr ''x'')],
       version = \<lparr>major = PInt 5, minor = PInt 0\<rparr>, shown = []\<rparr>"
  by code_simp

lemma change_special_formatting_example:
  "change_special_formatting
     \<lparr>conf = [(''z_special_formatting'', PDict [(''bold'', PList [PBool True, PStr ''b''])]),
               (''tag'', PStr ''x'')],
       saved = None,
       version = \<lparr>major = PInt 5, minor = PInt 0\<rparr>, shown = []\<rparr>
   = Inr \<lparr>conf = [(''tag'', PStr ''x''), (''special_formatting.bold.enabled'', PBool True),
               (''special_formatting.bold.arg'',
                PDict [(''type'', PStr ''text''), (''value'', PStr ''b'')])],
       saved = Some [(''tag'', PStr ''x''), (''special_formatting.bold.enabled'', PBool True),
               (''special_formatting.bold.arg'',
                PDict [(''type'', PStr ''text''), (''value'', PStr ''b'')])],
       version = \<lparr>major = PInt 5, minor = PInt 0\<rparr>, shown = []\<rparr>"
  by code_simp

lemma distinguish_initial_install_example:
  "distinguish_initial_install
     \<lparr>conf = [(''version.major'', PInt (- 1)), (''version.minor'', PInt (- 1)),
               (''undo'', PBool True), (''tag'', PStr ''x'')],
       saved = None,
       version = \<lparr>major = PInt (- 1), minor = PInt (- 1)\<rparr>, shown = []\<rparr>
   = Inr \<lparr>conf = [(''version.major'', PInt 0), (''version.minor'', PInt 0),
               (''undo'', PBool True), (''tag'', PStr ''x'')],
       saved = Some [(''version.major'', PInt 0), (''version.minor'', PInt 0),
               (''undo'', PBool True), (''tag'', PStr ''x'')],
       version = \<lparr>major = PInt 0, minor = PInt 0\<rparr>, shown = []\<rparr>"
  by code_simp

theorem migrations_confined_to_own_keys_witness:
  "change_resize_image_preserve_ratio
     \<lparr>conf = [(''resize_image_preserve_ratio'', PBool False), (''tag'', PStr ''x'')],
       saved = None,
       version = \<lparr>major = PInt 5, minor = PInt 0\<rparr>, shown = []\<rparr>
   = Inr \<lparr>conf = [(''resize_image_preserve_ratio'', PInt 0), (''tag'', PStr ''x'')],
       saved = Some [(''resize_image_preserve_ratio'', PInt 0), (''tag'', PStr ''x'')],
       version = \<lparr>major = PInt 5, minor = PInt 0\<rparr>, shown = []\<rparr>
   \<and> map_of [(''resize_image_preserve_ratio'', PInt 0), (''tag'', PStr ''x'')] ''tag''
     = map_of [(''resize_image_preserve_ratio'', PBool False), (''tag'', PStr ''x'')] ''tag''
   \<and> remove_undo
     \<lparr>conf = [(''undo'', PBool True), (''tag'', PStr ''x'')],
       saved = None,
       version = \<lparr>major = PInt 5, minor = PInt 0\<rparr>, shown = []\<rparr>
   = Inr \<lparr>conf = [(''tag'', PStr ''x'')],
       saved = Some [(''tag'', PStr ''x'')],
       version = \<lparr>major = PInt 5, minor = PInt 0\<rparr>, shown = []\<rparr>
   \<and> map_of [(''tag'', PStr ''x'')] ''tag''
     = map_of [(''undo'', PBool True), (''tag'', PStr ''x'')] ''tag''
   \<and> change_special_formatting
     \<lparr>conf = [(''z_special_formatting'', PDict [(''bold'', PList [PBool True, PStr ''b''])]),
               (''tag'', PStr ''x'')],
       saved = None,
       version = \<lparr>major = PInt 5, minor = PInt 0\<rparr>, shown = []\<rparr>
   = Inr \<lparr>conf = [(''tag'', PStr ''x''), (''special_formatting.bold.enabled'', PBool True),
               (''special_formatting.bold.arg'',
                PDict [(''type'', PStr ''text''), (''value'', PStr ''b'')])],
       saved = Some [(''tag'', PStr ''x''), (''special_formatting.bold.enabled'', PBool True),
               (''special_formatting.bold.arg'',
                PDict [(''type'', PStr ''text''), (''value'', PStr ''b'')])],
       version = \<lparr>major = PInt 5, minor = PInt 0\<rparr>, shown = []\<rparr>
   \<and> map_of [(''tag'', PStr ''x''), (''special_formatting.bold.enabled'', PBool True),
               (''special_formatting.bold.arg'',
                PDict [(''type'', PStr ''text''), (''value'', PStr ''b'')])] ''tag''
     = map_of [(''z_special_formatting'', PDict [(''bold'', PList [PBool True, PStr ''b''])]),
               (''tag'', PStr ''x'')] ''tag''
   \<and> distinguish_initial_install
     \<lparr>conf = [(''version.major'', PInt (- 1)), (''version.minor'', PInt (- 1)),
               (''undo'', PBool True), (''tag'', PStr ''x'')],
       saved = None,
       version = \<lparr>major = PInt (- 1), minor = PInt (- 1)\<rparr>, shown = []\<rparr>
   = Inr \<lparr>conf = [(''version.major'', PInt 0), (''version.minor'', PInt 0),
               (''undo'', PBool True), (''tag'', PStr ''x'')],
       saved = Some [(''version.major'', PInt 0), (''version.minor'', PInt 0),
               (''undo'', PBool True), (''tag'', PStr ''x'')],
       version = \<lparr>major = PInt 0, minor = PInt 0\<rparr>, shown = []\<rparr>
   \<and> map_of [(''version.major'', PInt 0), (''version.minor'', PInt 0),
               (''undo'', PBool True), (''tag'', PStr ''x'')] ''tag''
     = map_of [(''version.major'', PInt (- 1)), (''version.minor'', PInt (- 1)),
               (''undo'', PBool True), (''tag'', PStr ''x'')] ''tag''"
  using migrations_confined_to_own_keys
      [of "\<lparr>conf = [(''resize_image_preserve_ratio'', PBool False), (''tag'', PStr ''x'')],
       saved = None,
       version = \<lparr>major = PInt 5, minor = PInt 0\<rparr>, shown = []\<rparr>"
          "\<lparr>conf = [(''resize_image_preserve_ratio'', PInt 0), (''tag'', PStr ''x'')],
       saved = Some [(''resize_image_preserve_ratio'', PInt 0), (''tag'', PStr ''x'')],
       version = \<lparr>major = PInt 5, minor = PInt 0\<rparr>, shown = []\<rparr>"]
    migrations_confined_to_own_keys
      [of "\<lparr>conf = [(''undo'', PBool True), (''tag'', PStr ''x'')],
       saved = None,
       version = \<lparr>major = PInt 5, minor = PInt 0\<rparr>, shown = []\<rparr>"
          "\<lparr>conf = [(''tag'', PStr ''x'')],
       saved = Some [(''tag'', PStr ''x'')],
       version = \<lparr>major = PInt 5, minor = PInt 0\<rparr>, shown = []\<rparr>"]
    migrations_confined_to_own_keys
      [of "\<lparr>conf = [(''z_special_formatting'', PDict [(''bold'', PList [PBool True, PStr ''b''])]),
               (''tag'', PStr ''x'')],
       saved = None,
       version = \<lparr>major = PInt 5, minor = PInt 0\<rparr>, shown = []\<rparr>"
          "\<lparr>conf = [(''tag'', PStr ''x''), (''special_formatting.bold.enabled'', PBool True),
               (''special_formatting.bold.arg'',
                PDict [(''type'', PStr ''text''), (''value'', PStr ''b'')])],
       saved = Some [(''tag'', PStr ''x''), (''special_formatting.bold.enabled'', PBool True),
               (''special_formatting.bold.arg'',
                PDict [(''type'', PStr ''text''), (''value'', PStr ''b'')])],
       version = \<lparr>major = PInt 5, minor = PInt 0\<rparr>, shown = []\<rparr>"]
    migrations_confined_to_own_keys
      [of "\<lparr>conf = [(''version.major'', PInt (- 1)), (''version.minor'', PInt (- 1)),
               (''undo'', PBool True), (''tag'', PStr ''x'')],
       saved = None,
       version = \<lparr>major = PInt (- 1), minor = PInt (- 1)\<rparr>, shown = []\<rparr>"
          "\<lparr>conf = [(''version.major'', PInt 0), (''version.minor'', PInt 0),
               (''undo'', PBool True), (''tag'', PStr ''x'')],
       saved = Some [(''version.major'', PInt 0), (''version.minor'', PInt 0),
               (''undo'', PBool True), (''tag'', PStr ''x'')],
       version = \<lparr>major = PInt 0, minor = PInt 0\<rparr>, shown = []\<rparr>"]
    remove_undo_example change_resize_image_preserve_ratio_example
    change_special_formatting_example distinguish_initial_install_example
  by simp

section \<open>Running a migration twice\<close>

text \<open>
  Claim C2. Each of the three migrations is idempotent: run again on the state that
  its first run returned, it returns that state unchanged.
\<close>

theorem migrations_idempotent:
  "(change_resize_image_preserve_ratio s = Inr s' \<longrightarrow> change_resize_image_preserve_ratio s' = Inr s')
   \<and> (change_special_formatting s = Inr s' \<longrightarrow> change_special_formatting s' = Inr s')
   \<and> (remove_undo s = Inr s' \<longrightarrow> remove_undo s' = Inr s')"
proof (intro conjI impI)
  assume "change_resize_image_preserve_ratio s = Inr s'"
  then show "change_resize_image_preserve_ratio s' = Inr s'"
    by (auto simp add: change_resize_image_preserve_ratio_def conf_getitem_def conf_save_def
        map_of_conf_setitem split: option.splits pyval.splits)
next
  assume "change_special_formatting s = Inr s'"
  then show "change_special_formatting s' = Inr s'"
    by (auto simp add: change_special_formatting_def conf_delitem_def conf_contains_def
        conf_save_def map_of_delete split: if_splits sum.splits)
next
  assume "remove_undo s = Inr s'"
  then show "remove_undo s' = Inr s'"
    by (auto simp add: remove_undo_def conf_delitem_def conf_contains_def conf_save_def
        map_of_delete split: if_splits)
qed

theorem migrations_idempotent_witness:
  "change_resize_image_preserve_ratio
     \<lparr>conf = [(''resize_image_preserve_ratio'', PBool False), (''tag'', PStr ''x'')],
       saved = None,
       version = \<lparr>major = PInt 5, minor = PInt 0\<rparr>, shown = []\<rparr>
   = Inr \<lparr>conf = [(''resize_image_preserve_ratio'', PInt 0), (''tag'', PStr ''x'')],
       saved = Some [(''resize_image_preserve_ratio'', PInt 0), (''tag'', PStr ''x'')],
       version = \<lparr>major = PInt 5, minor = PInt 0\<rparr>, shown = []\<rparr>
   \<and> change_resize_image_preserve_ratio
     \<lparr>conf = [(''resize_image_preserve_ratio'', PInt 0), (''tag'', PStr ''x'')],
       saved = Some [(''resize_image_preserve_ratio'', PInt 0), (''tag'', PStr ''x'')],
       version = \<lparr>major = PInt 5, minor = PInt 0\<rparr>, shown = []\<rparr>
   = Inr \<lparr>conf = [(''resize_image_preserve_ratio'', PInt 0), (''tag'', PStr ''x'')],
       saved = Some [(''resize_image_preserve_ratio'', PInt 0), (''tag'', PStr ''x'')],
       version = \<lparr>major = PInt 5, minor = PInt 0\<rparr>, shown = []\<rparr>
   \<and> change_special_formatting
     \<lparr>conf = [(''z_special_formatting'', PDict [(''bold'', PList [PBool True, PStr ''b''])]),
               (''tag'', PStr ''x'')],
       saved = None,
       version = \<lparr>major = PInt 5, minor = PInt 0\<rparr>, shown = []\<rparr>
   = Inr \<lparr>conf = [(''tag'', PStr ''x''), (''special_formatting.bold.enabled'', PBool True),
               (''special_formatting.bold.arg'',
                PDict [(''type'', PStr ''text''), (''value'', PStr ''b'')])],
       saved = Some [(''tag'', PStr ''x''), (''special_formatting.bold.enabled'', PBool True),
               (''special_formatting.bold.arg'',
                PDict [(''type'', PStr ''text''), (''value'', PStr ''b'')])],
       version = \<lparr>major = PInt 5, minor = PInt 0\<rparr>, shown = []\<rparr>
   \<and> change_special_formatting
     \<lparr>conf = [(''tag'', PStr ''x''), (''special_formatting.bold.enabled'', PBool True),
               (''special_formatting.bold.arg'',
                PDict [(''type'', PStr ''text''), (''value'', PStr ''b'')])],
       saved = Some [(''tag'', PStr ''x''), (''special_formatting.bold.enabled'', PBool True),
               (''special_formatting.bold.arg'',
                PDict [(''type'', PStr ''text''), (''value'', PStr ''b'')])],
       version = \<lparr>major = PInt 5, minor = PInt 0\<rparr>, shown = []\<rparr>
   = Inr \<lparr>conf = [(''tag'', PStr ''x''), (''special_formatting.bold.enabled'', PBool True),
               (''special_formatting.bold.arg'',
                PDict [(''type'', PStr ''text''), (''value'', PStr ''b'')])],
       saved = Some [(''tag'', PStr ''x''), (''special_formatting.bold.enabled'', PBool True),
               (''special_formatting.bold.arg'',
                PDict [(''type'', PStr ''text''), (''value'', PStr ''b'')])],
       version = \<lparr>major = PInt 5, minor = PInt 0\<rparr>, shown = []\<rparr>
   \<and> remove_undo
     \<lparr>conf = [(''undo'', PBool True), (''tag'', PStr ''x'')],
       saved = None,
       version = \<lparr>major = PInt 5, minor = PInt 0\<rparr>, shown = []\<rparr>
   = Inr \<lparr>conf = [(''tag'', PStr ''x'')],
       saved = Some [(''tag'', PStr ''x'')],
       version = \<lparr>major = PInt 5, minor = PInt 0\<rparr>, shown = []\<rparr>
   \<and> remove_undo
     \<lparr>conf = [(''tag'', PStr ''x'')],
       saved = Some [(''tag'', PStr ''x'')],
       version = \<lparr>major = PInt 5, minor = PInt 0\<rparr>, shown = []\<rparr>
   = Inr \<lparr>conf = [(''tag'', PStr ''x'')],
       saved = Some [(''tag'', PStr ''x'')],
       version = \<lparr>major = PInt 5, minor = PInt 0\<rparr>, shown = []\<rparr>"
  using migrations_idempotent
      [of "\<lparr>conf = [(''resize_image_preserve_ratio'', PBool False), (''tag'', PStr ''x'')],
       saved = None,
       version = \<lparr>major = PInt 5, minor = PInt 0\<rparr>, shown = []\<rparr>"
          "\<lparr>conf = [(''resize_image_preserve_ratio'', PInt 0), (''tag'', PStr ''x'')],
       saved = Some [(''resize_image_preserve_ratio'', PInt 0), (''tag'', PStr ''x'')],
       version = \<lparr>major = PInt 5, minor = PInt 0\<rparr>, shown = []\<rparr>"]
    migrations_idempotent
      [of "\<lparr>conf = [(''z_special_formatting'', PDict [(''bold'', PList [PBool True, PStr ''b''])]),
               (''tag'', PStr ''x'')],
       saved = None,
       version = \<lparr>major = PInt 5, minor = PInt 0\<rparr>, shown = []\<rparr>"
          "\<lparr>conf = [(''tag'', PStr ''x''), (''special_formatting.bold.enabled'', PBool True),
               (''special_formatting.bold.arg'',
                PDict [(''type'', PStr ''text''), (''value'', PStr ''b'')])],
       saved = Some [(''tag'', PStr ''x''), (''special_formatting.bold.enabled'', PBool True),
               (''special_formatting.bold.arg'',
                PDict [(''type'', PStr ''text''), (''value'', PStr ''b'')])],
       version = \<lparr>major = PInt 5, minor = PInt 0\<rparr>, shown = []\<rparr>"]
    migrations_idempotent
      [of "\<lparr>conf = [(''undo'', PBool True), (''tag'', PStr ''x'')],
       saved = None,
       version = \<lparr>major = PInt 5, minor = PInt 0\<rparr>, shown = []\<rparr>"
          "\<lparr>conf = [(''tag'', PStr ''x'')],
       saved = Some [(''tag'', PStr ''x'')],
       version = \<lparr>major = PInt 5, minor = PInt 0\<rparr>, shown = []\<rparr>"]
    remove_undo_example change_resize_image_preserve_ratio_example
    change_special_formatting_example
  by simp

section \<open>The tutorial\<close>

lemma migrations_frame:
  assumes "migrations s = Inr s'"
  shows "version s' = version s" and "shown s' = shown s"
    and "map_of (conf s') ''version.major'' = map_of (conf s) ''version.major''"
    and "map_of (conf s') ''version.minor'' = map_of (conf s) ''version.minor''"
proof -
  from assms obtain s1 s2 where
    a: "change_resize_image_preserve_ratio s = Inr s1"
    and b: "change_special_formatting s1 = Inr s2"
    and c: "remove_undo s2 = Inr s'"
    by (auto simp add: migrations_def split: sum.splits)
  have np: "\<not> prefix ''special_formatting.'' ''version.major''"
    "\<not> prefix ''special_formatting.'' ''version.minor''"
    by (simp_all add: prefix_def)
  show "version s' = version s" and "shown s' = shown s"
    using frame_change_resize_image_preserve_ratio(1,2) [OF a]
      frame_change_special_formatting(1,2) [OF b] frame_remove_undo(1,2) [OF c]
    by simp_all
  show "map_of (conf s') ''version.major'' = map_of (conf s) ''version.major''"
    using frame_change_resize_image_preserve_ratio(3) [OF a, of "''version.major''"]
      frame_change_special_formatting(3) [OF b, of "''version.major''"]
      frame_remove_undo(3) [OF c, of "''version.major''"] np
    by simp
  show "map_of (conf s') ''version.minor'' = map_of (conf s) ''version.minor''"
    using frame_change_resize_image_preserve_ratio(3) [OF a, of "''version.minor''"]
      frame_change_special_formatting(3) [OF b, of "''version.minor''"]
      frame_remove_undo(3) [OF c, of "''version.minor''"] np
    by simp
qed

lemma Version_init_loaded:
  assumes "Version_init c = Inr s"
  shows "conf s = c" and "shown s = []" and "Version_load (conf s) = Inr (version s)"
  using assms by (auto simp add: Version_init_def split: sum.splits)

lemma distinguish_initial_install_loaded:
  assumes "distinguish_initial_install s = Inr s'" and "Version_load (conf s) = Inr (version s)"
  shows "Version_load (conf s') = Inr (version s')"
  using assms
  by (auto simp add: distinguish_initial_install_def conf_save_def Let_def
      split: sum.splits if_splits)

lemma tutorial_guard_shown:
  "tutorial_guard s =
     Inr (if Version_eq (version s) ''-1.-1'' = Inr True
          then s\<lparr>shown := shown s @ [''Edit Field During Review Cloze Enhanced'']\<rparr> else s)"
  by (simp add: tutorial_guard_def Version_eq_initial initial_tutorial_def)

lemma loaded_not_string_major:
  assumes "Version_load c = Inr v"
    and "map_of c ''version.major'' = Some mj" and "map_of c ''version.minor'' = Some mn"
    and "\<forall>t. mj \<noteq> PStr t"
  shows "Version_eq v ''-1.-1'' = Inr (py_eq_int mj (- 1) \<and> py_eq_int mn (- 1))"
proof (cases "\<exists>t. mn = PStr t")
  case True
  then obtain t where t: "mn = PStr t" by blast
  from assms(1-3) obtain i where "v = \<lparr>major = PInt i, minor = PStr t\<rparr>"
    by (auto simp add: Version_load_def conf_getitem_def t split: sum.splits pyval.splits)
  then show ?thesis by (simp add: Version_eq_initial t py_eq_int_def)
next
  case False
  with assms have "v = \<lparr>major = mj, minor = mn\<rparr>"
    by (cases mj; cases mn) (auto simp add: Version_load_def conf_getitem_def)
  then show ?thesis by (simp add: Version_eq_initial)
qed

text \<open>
  Claim C1. On a run that reaches the guard of the tutorial, the dialog is opened, once,
  exactly when the version compares equal to \<^verbatim>\<open>"-1.-1"\<close> after
  \<^verbatim>\<open>distinguish_initial_install\<close>; otherwise no dialog is opened. The version object
  at that point is what \<^verbatim>\<open>Version.load\<close> reads from the store as
  \<^verbatim>\<open>distinguish_initial_install\<close> left it. Where the stored major is no string, this
  is the test that the stored major and the stored minor both equal the integer -1.
\<close>

theorem tutorial_iff_initial_install:
  assumes "upto_tutorial c = Inr s"
  shows "\<exists>s0 s1. Version_init c = Inr s0 \<and> distinguish_initial_install s0 = Inr s1
          \<and> Version_load (conf s1) = Inr (version s1)
          \<and> (shown s = [''Edit Field During Review Cloze Enhanced'']
               \<longleftrightarrow> Version_eq (version s1) ''-1.-1'' = Inr True)
          \<and> (shown s \<noteq> [''Edit Field During Review Cloze Enhanced''] \<longrightarrow> shown s = [])
          \<and> (\<forall>mj mn. map_of (conf s1) ''version.major'' = Some mj
                     \<and> map_of (conf s1) ''version.minor'' = Some mn \<and> (\<forall>t. mj \<noteq> PStr t)
                 \<longrightarrow> (shown s = [''Edit Field During Review Cloze Enhanced'']
                        \<longleftrightarrow> py_eq_int mj (- 1) \<and> py_eq_int mn (- 1)))"
proof -
  from assms obtain s0 s1 s2 where
    init: "Version_init c = Inr s0"
    and dii: "distinguish_initial_install s0 = Inr s1"
    and mig: "migrations s1 = Inr s2"
    and guard: "tutorial_guard s2 = Inr s"
    by (auto simp add: upto_tutorial_def split: sum.splits)
  have loaded: "Version_load (conf s1) = Inr (version s1)"
    using distinguish_initial_install_loaded [OF dii Version_init_loaded(3) [OF init]] .
  have "shown s1 = []"
    using frame_distinguish_initial_install(1) [OF dii] Version_init_loaded(2) [OF init] by simp
  then have s2: "shown s2 = []" "version s2 = version s1"
    using migrations_frame(1,2) [OF mig] by simp_all
  have shown: "shown s = (if Version_eq (version s1) ''-1.-1'' = Inr True
                          then [''Edit Field During Review Cloze Enhanced''] else [])"
    using guard s2 by (auto simp add: tutorial_guard_shown split: if_splits)
  have iff: "shown s = [''Edit Field During Review Cloze Enhanced'']
               \<longleftrightarrow> Version_eq (version s1) ''-1.-1'' = Inr True"
    by (simp add: shown)
  have none: "shown s \<noteq> [''Edit Field During Review Cloze Enhanced''] \<longrightarrow> shown s = []"
    by (simp add: shown)
  have stored: "\<forall>mj mn. map_of (conf s1) ''version.major'' = Some mj
                     \<and> map_of (conf s1) ''version.minor'' = Some mn \<and> (\<forall>t. mj \<noteq> PStr t)
                 \<longrightarrow> (shown s = [''Edit Field During Review Cloze Enhanced'']
                        \<longleftrightarrow> py_eq_int mj (- 1) \<and> py_eq_int mn (- 1))"
    using loaded_not_string_major [OF loaded] by (auto simp add: iff)
  from init dii loaded iff none stored show ?thesis by blast
qed

lemma upto_tutorial_example:
  "upto_tutorial [(''version.major'', PInt (- 1)), (''version.minor'', PInt (- 1)),
                  (''resize_image_preserve_ratio'', PInt 1)]
   = Inr \<lparr>conf = [(''version.major'', PInt (- 1)), (''version.minor'', PInt (- 1)),
                  (''resize_image_preserve_ratio'', PInt 1)],
          saved = None, version = \<lparr>major = PInt (- 1), minor = PInt (- 1)\<rparr>,
          shown = [''Edit Field During Review Cloze Enhanced'']\<rparr>"
  by code_simp

theorem tutorial_iff_initial_install_witness:
  "upto_tutorial [(''version.major'', PInt (- 1)), (''version.minor'', PInt (- 1)),
                  (''resize_image_preserve_ratio'', PInt 1)]
   = Inr \<lparr>conf = [(''version.major'', PInt (- 1)), (''version.minor'', PInt (- 1)),
                  (''resize_image_preserve_ratio'', PInt 1)],
          saved = None, version = \<lparr>major = PInt (- 1), minor = PInt (- 1)\<rparr>,
          shown = [''Edit Field During Review Cloze Enhanced'']\<rparr>
   \<and> (\<exists>s0 s1. Version_init [(''version.major'', PInt (- 1)), (''version.minor'', PInt (- 1)),
                             (''resize_image_preserve_ratio'', PInt 1)] = Inr s0
          \<and> distinguish_initial_install s0 = Inr s1
          \<and> Version_load (conf s1) = Inr (version s1)
          \<and> Version_eq (version s1) ''-1.-1'' = Inr True)"
  using tutorial_iff_initial_install [OF upto_tutorial_example] upto_tutorial_example
  by auto

section \<open>Recording the current version\<close>

lemma save_current_version_result:
  assumes "save_current_version env meta s = Inr s'"
  shows "\<exists>t a b. version_string env meta = PStr t
          \<and> 2 \<le> length (str_split CHR ''.'' t)
          \<and> py_int (str_split CHR ''.'' t ! 0) = Inr a
          \<and> py_int (str_split CHR ''.'' t ! 1) = Inr b
          \<and> s' = s\<lparr>conf := conf_setitem (conf_setitem (conf s) ''version.major'' (PInt a))
                               ''version.minor'' (PInt b),
                    saved := Some (conf_setitem (conf_setitem (conf s) ''version.major'' (PInt a))
                                     ''version.minor'' (PInt b))\<rparr>"
proof -
  from assms obtain t where t: "version_string env meta = PStr t"
    by (cases "version_string env meta")
       (auto simp add: save_current_version_def version_component_def Let_def)
  from assms t obtain a b where
    a: "version_component (PStr t) 0 = Inr a" and b: "version_component (PStr t) 1 = Inr b"
    and s': "s' = conf_save (s\<lparr>conf := conf_setitem (conf_setitem (conf s) ''version.major'' (PInt a))
                                          ''version.minor'' (PInt b)\<rparr>)"
    by (auto simp add: save_current_version_def Let_def split: sum.splits)
  from b have len: "2 \<le> length (str_split CHR ''.'' t)"
    by (auto simp add: version_component_def list_get_def split: if_splits)
  from a b len have "py_int (str_split CHR ''.'' t ! 0) = Inr a"
    and "py_int (str_split CHR ''.'' t ! 1) = Inr b"
    by (auto simp add: version_component_def list_get_def split: if_splits)
  with t len s' show ?thesis by (auto simp add: conf_save_def)
qed

lemma version_string_cases:
  "(\<forall>e. env = Some e \<and> e \<noteq> [] \<longrightarrow> version_string env meta = PStr e)
   \<and> (env = None \<or> env = Some [] \<longrightarrow>
        version_string env meta =
          (case map_of meta ''human_version'' of None \<Rightarrow> PStr ''6.23'' | Some v \<Rightarrow> v))"
  by (auto simp add: version_string_def)

text \<open>
  Claim C4. When the module finishes, the current version is a string \<open>t\<close>: the value
  of the environment variable if it is set and not empty, otherwise the entry
  \<^verbatim>\<open>human_version\<close> of the metadata, or \<^verbatim>\<open>"6.23"\<close> without such an entry. The
  string splits at the dots into at least two components, the first two are integers,
  the store holds them under \<^verbatim>\<open>version.major\<close> and \<^verbatim>\<open>version.minor\<close>, and the
  store has been saved as it is.
\<close>

theorem firstrun_records_current_version:
  assumes "firstrun env meta c = Inr s"
  shows "\<exists>t a b. version_string env meta = PStr t
          \<and> (\<forall>e. env = Some e \<and> e \<noteq> [] \<longrightarrow> t = e)
          \<and> (env = None \<or> env = Some [] \<longrightarrow>
                PStr t = (case map_of meta ''human_version'' of
                            None \<Rightarrow> PStr ''6.23'' | Some v \<Rightarrow> v))
          \<and> 2 \<le> length (str_split CHR ''.'' t)
          \<and> py_int (str_split CHR ''.'' t ! 0) = Inr a
          \<and> py_int (str_split CHR ''.'' t ! 1) = Inr b
          \<and> map_of (conf s) ''version.major'' = Some (PInt a)
          \<and> map_of (conf s) ''version.minor'' = Some (PInt b)
          \<and> saved s = Some (conf s)"
proof -
  from assms obtain s2 where "save_current_version env meta s2 = Inr s"
    by (auto simp add: firstrun_def split: sum.splits)
  from save_current_version_result [OF this] obtain t a b where
    t: "version_string env meta = PStr t"
    and len: "2 \<le> length (str_split CHR ''.'' t)"
    and a: "py_int (str_split CHR ''.'' t ! 0) = Inr a"
    and b: "py_int (str_split CHR ''.'' t ! 1) = Inr b"
    and s: "s = s2\<lparr>conf := conf_setitem (conf_setitem (conf s2) ''version.major'' (PInt a))
                               ''version.minor'' (PInt b),
                    saved := Some (conf_setitem (conf_setitem (conf s2) ''version.major'' (PInt a))
                                     ''version.minor'' (PInt b))\<rparr>"
    by blast
  have env1: "\<forall>e. env = Some e \<and> e \<noteq> [] \<longrightarrow> t = e"
    using version_string_cases [of env meta] t by auto
  have env2: "env = None \<or> env = Some [] \<longrightarrow>
                PStr t = (case map_of meta ''human_version'' of
                            None \<Rightarrow> PStr ''6.23'' | Some v \<Rightarrow> v)"
    using version_string_cases [of env meta] t by auto
  have stored: "map_of (conf s) ''version.major'' = Some (PInt a)"
    "map_of (conf s) ''version.minor'' = Some (PInt b)" "saved s = Some (conf s)"
    by (simp_all add: s map_of_conf_setitem)
  from t env1 env2 len a b stored show ?thesis by blast
qed

lemma firstrun_example:
  "firstrun None [(''human_version'', PStr ''7.1'')]
     [(''version.major'', PInt 6), (''version.minor'', PInt 23),
      (''resize_image_preserve_ratio'', PInt 1)]
   = Inr \<lparr>conf = [(''version.major'', PInt 7), (''version.minor'', PInt 1),
                  (''resize_image_preserve_ratio'', PInt 1)],
          saved = Some [(''version.major'', PInt 7), (''version.minor'', PInt 1),
                        (''resize_image_preserve_ratio'', PInt 1)],
          version = \<lparr>major = PInt 6, minor = PInt 23\<rparr>, shown = []\<rparr>"
  by code_simp

theorem firstrun_records_current_version_witness:
  "firstrun None [(''human_version'', PStr ''7.1'')]
     [(''version.major'', PInt 6), (''version.minor'', PInt 23),
      (''resize_image_preserve_ratio'', PInt 1)]
   = Inr \<lparr>conf = [(''version.major'', PInt 7), (''version.minor'', PInt 1),
                          (''resize_image_preserve_ratio'', PInt 1)],
                  saved = Some [(''version.major'', PInt 7), (''version.minor'', PInt 1),
                                (''resize_image_preserve_ratio'', PInt 1)],
                  version = \<lparr>major = PInt 6, minor = PInt 23\<rparr>, shown = []\<rparr>
   \<and> (\<exists>t a b. version_string None [(''human_version'', PStr ''7.1'')] = PStr t
         \<and> 2 \<le> length (str_split CHR ''.'' t)
         \<and> py_int (str_split CHR ''.'' t ! 0) = Inr a
         \<and> py_int (str_split CHR ''.'' t ! 1) = Inr b
         \<and> map_of (conf \<lparr>conf = [(''version.major'', PInt 7), (''version.minor'', PInt 1),
                          (''resize_image_preserve_ratio'', PInt 1)],
                  saved = Some [(''version.major'', PInt 7), (''version.minor'', PInt 1),
                                (''resize_image_preserve_ratio'', PInt 1)],
                  version = \<lparr>major = PInt 6, minor = PInt 23\<rparr>, shown = []\<rparr>) ''version.major'' = Some (PInt a)
         \<and> map_of (conf \<lparr>conf = [(''version.major'', PInt 7), (''version.minor'', PInt 1),
                          (''resize_image_preserve_ratio'', PInt 1)],
                  saved = Some [(''version.major'', PInt 7), (''version.minor'', PInt 1),
                                (''resize_image_preserve_ratio'', PInt 1)],
                  version = \<lparr>major = PInt 6, minor = PInt 23\<rparr>, shown = []\<rparr>) ''version.minor'' = Some (PInt b)
         \<and> saved \<lparr>conf = [(''version.major'', PInt 7), (''version.minor'', PInt 1),
                          (''resize_image_preserve_ratio'', PInt 1)],
                  saved = Some [(''version.major'', PInt 7), (''version.minor'', PInt 1),
                                (''resize_image_preserve_ratio'', PInt 1)],
                  version = \<lparr>major = PInt 6, minor = PInt 23\<rparr>, shown = []\<rparr> = Some (conf \<lparr>conf = [(''version.major'', PInt 7), (''version.minor'', PInt 1),
                          (''resize_image_preserve_ratio'', PInt 1)],
                  saved = Some [(''version.major'', PInt 7), (''version.minor'', PInt 1),
                                (''resize_image_preserve_ratio'', PInt 1)],
                  version = \<lparr>major = PInt 6, minor = PInt 23\<rparr>, shown = []\<rparr>))"
proof -
  from firstrun_records_current_version [OF firstrun_example]
  have "\<exists>t a b. version_string None [(''human_version'', PStr ''7.1'')] = PStr t
         \<and> 2 \<le> length (str_split CHR ''.'' t)
         \<and> py_int (str_split CHR ''.'' t ! 0) = Inr a
         \<and> py_int (str_split CHR ''.'' t ! 1) = Inr b
         \<and> map_of (conf \<lparr>conf = [(''version.major'', PInt 7), (''version.minor'', PInt 1),
                          (''resize_image_preserve_ratio'', PInt 1)],
                  saved = Some [(''version.major'', PInt 7), (''version.minor'', PInt 1),
                                (''resize_image_preserve_ratio'', PInt 1)],
                  version = \<lparr>major = PInt 6, minor = PInt 23\<rparr>, shown = []\<rparr>) ''version.major'' = Some (PInt a)
         \<and> map_of (conf \<lparr>conf = [(''version.major'', PInt 7), (''version.minor'', PInt 1),
                          (''resize_image_preserve_ratio'', PInt 1)],
                  saved = Some [(''version.major'', PInt 7), (''version.minor'', PInt 1),
                                (''resize_image_preserve_ratio'', PInt 1)],
                  version = \<lparr>major = PInt 6, minor = PInt 23\<rparr>, shown = []\<rparr>) ''version.minor'' = Some (PInt b)
         \<and> saved \<lparr>conf = [(''version.major'', PInt 7), (''version.minor'', PInt 1),
                          (''resize_image_preserve_ratio'', PInt 1)],
                  saved = Some [(''version.major'', PInt 7), (''version.minor'', PInt 1),
                                (''resize_image_preserve_ratio'', PInt 1)],
                  version = \<lparr>major = PInt 6, minor = PInt 23\<rparr>, shown = []\<rparr> = Some (conf \<lparr>conf = [(''version.major'', PInt 7), (''version.minor'', PInt 1),
                          (''resize_image_preserve_ratio'', PInt 1)],
                  saved = Some [(''version.major'', PInt 7), (''version.minor'', PInt 1),
                                (''resize_image_preserve_ratio'', PInt 1)],
                  version = \<lparr>major = PInt 6, minor = PInt 23\<rparr>, shown = []\<rparr>)"
    by blast
  with firstrun_example show ?thesis by (rule conjI)
qed

section \<open>What the current version decides\<close>

lemma save_current_version_frame:
  assumes "save_current_version env meta s = Inr s'"
  shows "shown s' = shown s" and "version s' = version s"
    and "k \<noteq> ''version.major'' \<Longrightarrow> k \<noteq> ''version.minor'' \<Longrightarrow> map_of (conf s') k = map_of (conf s) k"
proof -
  from save_current_version_result [OF assms] obtain a b where
    s': "s' = s\<lparr>conf := conf_setitem (conf_setitem (conf s) ''version.major'' (PInt a))
                               ''version.minor'' (PInt b),
                    saved := Some (conf_setitem (conf_setitem (conf s) ''version.major'' (PInt a))
                                     ''version.minor'' (PInt b))\<rparr>"
    by blast
  show "shown s' = shown s" and "version s' = version s"
    by (simp_all add: s')
  show "k \<noteq> ''version.major'' \<Longrightarrow> k \<noteq> ''version.minor'' \<Longrightarrow> map_of (conf s') k = map_of (conf s) k"
    by (simp add: s' map_of_conf_setitem)
qed

lemma firstrun_after_upto_tutorial:
  assumes "firstrun env meta c = Inr s"
  shows "\<exists>s2. upto_tutorial c = Inr s2 \<and> shown s = shown s2 \<and> version s = version s2
          \<and> (\<forall>k. k \<noteq> ''version.major'' \<and> k \<noteq> ''version.minor''
                 \<longrightarrow> map_of (conf s) k = map_of (conf s2) k)"
proof -
  from assms obtain s2 where u: "upto_tutorial c = Inr s2"
    and sv: "save_current_version env meta s2 = Inr s"
    by (cases "upto_tutorial c") (simp_all add: firstrun_def)
  have "shown s = shown s2" and "version s = version s2"
    by (rule save_current_version_frame(1,2) [OF sv])+
  moreover have "\<forall>k. k \<noteq> ''version.major'' \<and> k \<noteq> ''version.minor''
                 \<longrightarrow> map_of (conf s) k = map_of (conf s2) k"
    using save_current_version_frame(3) [OF sv] by simp
  ultimately show ?thesis using u by simp
qed

lemma firstrun_runs_agree:
  assumes "firstrun env meta c = Inr s" and "firstrun env' meta' c = Inr s'"
  shows "shown s = shown s'" and "version s = version s'"
    and "\<forall>k. k \<noteq> ''version.major'' \<and> k \<noteq> ''version.minor''
             \<longrightarrow> map_of (conf s) k = map_of (conf s') k"
proof -
  from firstrun_after_upto_tutorial [OF assms(1)] obtain s2 where
    u: "upto_tutorial c = Inr s2" and a: "shown s = shown s2" "version s = version s2"
    and ak: "\<forall>k. k \<noteq> ''version.major'' \<and> k \<noteq> ''version.minor''
                 \<longrightarrow> map_of (conf s) k = map_of (conf s2) k"
    by blast
  from firstrun_after_upto_tutorial [OF assms(2)] obtain s3 where
    u': "upto_tutorial c = Inr s3" and b: "shown s' = shown s3" "version s' = version s3"
    and bk: "\<forall>k. k \<noteq> ''version.major'' \<and> k \<noteq> ''version.minor''
                 \<longrightarrow> map_of (conf s') k = map_of (conf s3) k"
    by blast
  from u u' have eq: "s3 = s2" by simp
  show "shown s = shown s'" and "version s = version s'"
    using a b eq by simp_all
  show "\<forall>k. k \<noteq> ''version.major'' \<and> k \<noteq> ''version.minor''
             \<longrightarrow> map_of (conf s) k = map_of (conf s') k"
    using ak bk eq by simp
qed

text \<open>
  Claim C3, as it stands, says that for some stored configuration the one-time
  behaviour differs between two current versions of the add-on. It does not: whenever
  two runs on the same stored configuration finish, under any two environments and
  metadata, they have shown the same dialogs and left the same entries under every key
  other than \<^verbatim>\<open>version.major\<close> and \<^verbatim>\<open>version.minor\<close>.
\<close>

theorem behaviour_depends_on_current_version_refuted:
  "\<not> (\<exists>c env meta env' meta' s s'.
         firstrun env meta c = Inr s \<and> firstrun env' meta' c = Inr s'
         \<and> (shown s \<noteq> shown s'
            \<or> (\<exists>k. k \<noteq> ''version.major'' \<and> k \<noteq> ''version.minor''
                    \<and> map_of (conf s) k \<noteq> map_of (conf s') k)))"
proof
  assume "\<exists>c env meta env' meta' s s'.
         firstrun env meta c = Inr s \<and> firstrun env' meta' c = Inr s'
         \<and> (shown s \<noteq> shown s'
            \<or> (\<exists>k. k \<noteq> ''version.major'' \<and> k \<noteq> ''version.minor''
                    \<and> map_of (conf s) k \<noteq> map_of (conf s') k))"
  then obtain c env meta env' meta' s s' where
    r1: "firstrun env meta c = Inr s" and r2: "firstrun env' meta' c = Inr s'"
    and d: "shown s \<noteq> shown s'
            \<or> (\<exists>k. k \<noteq> ''version.major'' \<and> k \<noteq> ''version.minor''
                    \<and> map_of (conf s) k \<noteq> map_of (conf s') k)"
    by blast
  from firstrun_runs_agree(1) [OF r1 r2] firstrun_runs_agree(3) [OF r1 r2] d
  show False by blast
qed

text \<open>
  Claim C3, amended. The current version of the add-on decides no branch. A run that
  finishes has passed the part of the module that does not read the current version,
  \<open>upto_tutorial\<close>, in which the only comparison of the version is the one with the
  literal \<^verbatim>\<open>"-1.-1"\<close>; the final state has the dialogs and the version object of that
  part and its store except for \<^verbatim>\<open>version.major\<close> and \<^verbatim>\<open>version.minor\<close>, which
  hold the current version. So two runs on one stored configuration that finish agree
  on the dialogs, on the version object and on every other key.
\<close>

theorem current_version_only_recorded:
  assumes "firstrun env meta c = Inr s"
  shows "(\<exists>s2. upto_tutorial c = Inr s2 \<and> shown s = shown s2 \<and> version s = version s2
            \<and> (\<forall>k. k \<noteq> ''version.major'' \<and> k \<noteq> ''version.minor''
                   \<longrightarrow> map_of (conf s) k = map_of (conf s2) k))
       \<and> (\<forall>env' meta' s'. firstrun env' meta' c = Inr s' \<longrightarrow>
             shown s = shown s' \<and> version s = version s'
             \<and> (\<forall>k. k \<noteq> ''version.major'' \<and> k \<noteq> ''version.minor''
                    \<longrightarrow> map_of (conf s) k = map_of (conf s') k))"
proof (rule conjI)
  show "\<exists>s2. upto_tutorial c = Inr s2 \<and> shown s = shown s2 \<and> version s = version s2
            \<and> (\<forall>k. k \<noteq> ''version.major'' \<and> k \<noteq> ''version.minor''
                   \<longrightarrow> map_of (conf s) k = map_of (conf s2) k)"
    by (rule firstrun_after_upto_tutorial [OF assms])
next
  show "\<forall>env' meta' s'. firstrun env' meta' c = Inr s' \<longrightarrow>
             shown s = shown s' \<and> version s = version s'
             \<and> (\<forall>k. k \<noteq> ''version.major'' \<and> k \<noteq> ''version.minor''
                    \<longrightarrow> map_of (conf s) k = map_of (conf s') k)"
  proof (intro allI impI)
    fix env' meta' s'
    assume r2: "firstrun env' meta' c = Inr s'"
    from firstrun_runs_agree [OF assms r2]
    show "shown s = shown s' \<and> version s = version s'
             \<and> (\<forall>k. k \<noteq> ''version.major'' \<and> k \<noteq> ''version.minor''
                    \<longrightarrow> map_of (conf s) k = map_of (conf s') k)"
      by (intro conjI)
  qed
qed

lemma firstrun_example_env:
  "firstrun (Some ''9.0'') []
     [(''version.major'', PInt 6), (''version.minor'', PInt 23),
      (''resize_image_preserve_ratio'', PInt 1)]
   = Inr \<lparr>conf = [(''version.major'', PInt 9), (''version.minor'', PInt 0),
                  (''resize_image_preserve_ratio'', PInt 1)],
          saved = Some [(''version.major'', PInt 9), (''version.minor'', PInt 0),
                        (''resize_image_preserve_ratio'', PInt 1)],
          version = \<lparr>major = PInt 6, minor = PInt 23\<rparr>, shown = []\<rparr>"
  by code_simp

theorem current_version_only_recorded_witness:
  "firstrun None [(''human_version'', PStr ''7.1'')]
     [(''version.major'', PInt 6), (''version.minor'', PInt 23),
      (''resize_image_preserve_ratio'', PInt 1)]
   = Inr \<lparr>conf = [(''version.major'', PInt 7), (''version.minor'', PInt 1),
                  (''resize_image_preserve_ratio'', PInt 1)],
          saved = Some [(''version.major'', PInt 7), (''version.minor'', PInt 1),
                        (''resize_image_preserve_ratio'', PInt 1)],
          version = \<lparr>major = PInt 6, minor = PInt 23\<rparr>, shown = []\<rparr>
   \<and> firstrun (Some ''9.0'') []
     [(''version.major'', PInt 6), (''version.minor'', PInt 23),
      (''resize_image_preserve_ratio'', PInt 1)]
   = Inr \<lparr>conf = [(''version.major'', PInt 9), (''version.minor'', PInt 0),
                  (''resize_image_preserve_ratio'', PInt 1)],
          saved = Some [(''version.major'', PInt 9), (''version.minor'', PInt 0),
                        (''resize_image_preserve_ratio'', PInt 1)],
          version = \<lparr>major = PInt 6, minor = PInt 23\<rparr>, shown = []\<rparr>
   \<and> map_of [(''version.major'', PInt 7), (''version.minor'', PInt 1),
              (''resize_image_preserve_ratio'', PInt 1)] ''resize_image_preserve_ratio''
     = map_of [(''version.major'', PInt 9), (''version.minor'', PInt 0),
               (''resize_image_preserve_ratio'', PInt 1)] ''resize_image_preserve_ratio''"
proof -
  have "map_of (conf \<lparr>conf = [(''version.major'', PInt 7), (''version.minor'', PInt 1),
                               (''resize_image_preserve_ratio'', PInt 1)],
                       saved = Some [(''version.major'', PInt 7), (''version.minor'', PInt 1),
                                     (''resize_image_preserve_ratio'', PInt 1)],
                       version = \<lparr>major = PInt 6, minor = PInt 23\<rparr>, shown = []\<rparr>)
          ''resize_image_preserve_ratio''
        = map_of (conf \<lparr>conf = [(''version.major'', PInt 9), (''version.minor'', PInt 0),
                               (''resize_image_preserve_ratio'', PInt 1)],
                       saved = Some [(''version.major'', PInt 9), (''version.minor'', PInt 0),
                                     (''resize_image_preserve_ratio'', PInt 1)],
                       version = \<lparr>major = PInt 6, minor = PInt 23\<rparr>, shown = []\<rparr>)
          ''resize_image_preserve_ratio''"
    by (rule current_version_only_recorded [OF firstrun_example, THEN conjunct2, rule_format,
          OF firstrun_example_env, THEN conjunct2, THEN conjunct2, rule_format]) simp
  then show ?thesis
    by (simp only: firstrun_example firstrun_example_env state.simps simp_thms)
qed

end
